theory Spec2Isabelle
  imports Complex_Main "HOL-Library.AList"
begin

section \<open>The JavaScript fragment the handlers use\<close>

text \<open>
  The components are React function components. Each event handler is embedded as a
  function from the component's state to its state after the handler has run to
  completion. Everything a handler does besides updating React state is explicit:
  browser storage is a map, and network requests, notifications, console traces and
  file saves are appended to a log in the order the handler performs them. The answer
  of the backend to a request is a parameter of the embedding. A reload that a handler
  starts without awaiting it is run as the handler's last step; two handlers running
  interleaved are not modelled.

  Numbers: a finite number is modelled by its exact rational value. Rounding to
  binary64, overflow to infinity and the sign of zero are not modelled.
\<close>

datatype jsnum = NaN | PosInf | NegInf | Fin rat

datatype jsval =
    JUndefined
  | JNull
  | JBool bool
  | JNum jsnum
  | JStr string
  | JArr "jsval list"
  | JObj "(string \<times> jsval) list"

text \<open>ToBoolean: the values that count as false in \<open>if (v)\<close>, \<open>a || b\<close>.\<close>

fun truthy :: "jsval \<Rightarrow> bool" where
  "truthy JUndefined = False"
| "truthy JNull = False"
| "truthy (JBool b) = b"
| "truthy (JNum NaN) = False"
| "truthy (JNum (Fin r)) = (r \<noteq> 0)"
| "truthy (JNum PosInf) = True"
| "truthy (JNum NegInf) = True"
| "truthy (JStr s) = (s \<noteq> [])"
| "truthy (JArr xs) = True"
| "truthy (JObj kvs) = True"

text \<open>\<open>a || b\<close>\<close>

definition js_or :: "jsval \<Rightarrow> jsval \<Rightarrow> jsval" where
  "js_or a b = (if truthy a then a else b)"

text \<open>Property access \<open>o.k\<close> on an object literal: \<open>undefined\<close> for a missing key.\<close>

definition get_prop :: "(string \<times> jsval) list \<Rightarrow> string \<Rightarrow> jsval" where
  "get_prop kvs k = (case map_of kvs k of None \<Rightarrow> JUndefined | Some v \<Rightarrow> v)"

text \<open>
  Optional chaining \<open>v?.k\<close>: \<open>undefined\<close> when \<open>v\<close> is \<open>undefined\<close> or \<open>null\<close>; a
  primitive or an array has no property of the names used here.
\<close>

fun opt_chain :: "jsval \<Rightarrow> string \<Rightarrow> jsval" where
  "opt_chain (JObj kvs) k = get_prop kvs k"
| "opt_chain v k = JUndefined"

text \<open>
  What \<open>JSON.stringify\<close> keeps of a value (axios serialises a request body with it): a
  property whose value is \<open>undefined\<close> is dropped, an \<open>undefined\<close> array element and a
  number that is not finite become \<open>null\<close>.
\<close>

primrec to_json :: "jsval \<Rightarrow> jsval" where
  "to_json JUndefined = JUndefined"
| "to_json JNull = JNull"
| "to_json (JBool b) = JBool b"
| "to_json (JNum n) = (case n of Fin r \<Rightarrow> JNum (Fin r) | _ \<Rightarrow> JNull)"
| "to_json (JStr s) = JStr s"
| "to_json (JArr xs) = JArr (map (\<lambda>v. if v = JUndefined then JNull else v) (map to_json xs))"
| "to_json (JObj kvs) =
     JObj (filter (\<lambda>(k, v). v \<noteq> JUndefined) (map (map_prod id to_json) kvs))"

subsection \<open>Decimal strings, \<open>parseInt\<close> and \<open>parseFloat\<close>\<close>

text \<open>
  Strings are ASCII. \<open>show_int\<close> is Number::toString on an integer; JavaScript
  switches to exponent notation from \<open>10^21\<close> on, which no day count, year or amount
  of this application reaches.
\<close>

fun show_nat :: "nat \<Rightarrow> string" where
  "show_nat n =
     (if n < 10 then [''0123456789'' ! n]
      else show_nat (n div 10) @ [''0123456789'' ! (n mod 10)])"

declare show_nat.simps [simp del]

definition show_int :: "int \<Rightarrow> string" where
  "show_int i = (if i < 0 then CHR ''-'' # show_nat (nat (- i)) else show_nat (nat i))"

definition is_space :: "char \<Rightarrow> bool" where
  "is_space c = (c \<in> set [CHR 0x09, CHR 0x0A, CHR 0x0B, CHR 0x0C, CHR 0x0D, CHR '' ''])"

definition dec_digit :: "char \<Rightarrow> nat option" where
  "dec_digit = map_of
     [(CHR ''0'', 0), (CHR ''1'', 1), (CHR ''2'', 2), (CHR ''3'', 3), (CHR ''4'', 4),
      (CHR ''5'', 5), (CHR ''6'', 6), (CHR ''7'', 7), (CHR ''8'', 8), (CHR ''9'', 9)]"

definition hex_digit :: "char \<Rightarrow> nat option" where
  "hex_digit = map_of
     [(CHR ''0'', 0), (CHR ''1'', 1), (CHR ''2'', 2), (CHR ''3'', 3), (CHR ''4'', 4),
      (CHR ''5'', 5), (CHR ''6'', 6), (CHR ''7'', 7), (CHR ''8'', 8), (CHR ''9'', 9),
      (CHR ''a'', 10), (CHR ''b'', 11), (CHR ''c'', 12), (CHR ''d'', 13), (CHR ''e'', 14),
      (CHR ''f'', 15), (CHR ''A'', 10), (CHR ''B'', 11), (CHR ''C'', 12), (CHR ''D'', 13),
      (CHR ''E'', 14), (CHR ''F'', 15)]"

definition is_dec :: "char \<Rightarrow> bool" where
  "is_dec c = (dec_digit c \<noteq> None)"

definition is_hex :: "char \<Rightarrow> bool" where
  "is_hex c = (hex_digit c \<noteq> None)"

definition radix_val :: "nat \<Rightarrow> (char \<Rightarrow> nat option) \<Rightarrow> string \<Rightarrow> nat" where
  "radix_val R dig Z = foldl (\<lambda>a c. a * R + (case dig c of Some d \<Rightarrow> d | None \<Rightarrow> 0)) 0 Z"

text \<open>An optional leading sign: whether it is a minus, and the rest.\<close>

definition strip_sign :: "string \<Rightarrow> bool \<times> string" where
  "strip_sign s =
     (case s of
        [] \<Rightarrow> (False, [])
      | c # r \<Rightarrow> if c = CHR ''-'' then (True, r) else if c = CHR ''+'' then (False, r) else (False, s))"

text \<open>
  \<open>parseInt(string)\<close> with no radix: leading white space is skipped, then a sign, then
  \<open>0x\<close> selects radix 16; the digits up to the first character that is not one are
  the result, and \<open>NaN\<close> when there is none.
\<close>

definition parseInt_str :: "string \<Rightarrow> jsnum" where
  "parseInt_str s =
     (let (neg, S) = strip_sign (dropWhile is_space s);
          hex = (take 2 S = ''0x'' \<or> take 2 S = ''0X'');
          Z = (if hex then takeWhile is_hex (drop 2 S) else takeWhile is_dec S);
          n = (if hex then radix_val 16 hex_digit Z else radix_val 10 dec_digit Z)
      in if Z = [] then NaN else Fin (if neg then - of_nat n else of_nat n))"

text \<open>The exponent \<open>e[+-]ddd\<close> at the head of a string; 0 when there is none.\<close>

definition exponent_part :: "string \<Rightarrow> int" where
  "exponent_part s =
     (case s of
        [] \<Rightarrow> 0
      | c # r \<Rightarrow>
          if c = CHR ''e'' \<or> c = CHR ''E'' then
            (let (neg, t) = strip_sign r; ds = takeWhile is_dec t
             in if ds = [] then 0
                else if neg then - int (radix_val 10 dec_digit ds)
                else int (radix_val 10 dec_digit ds))
          else 0)"

definition scale10 :: "rat \<Rightarrow> int \<Rightarrow> rat" where
  "scale10 x e = (if 0 \<le> e then x * 10 ^ nat e else x / 10 ^ nat (- e))"

text \<open>
  \<open>parseFloat(string)\<close>: leading white space is skipped; the longest prefix that is a
  decimal literal (sign, \<open>Infinity\<close> or digits with an optional fraction and exponent)
  is the result, and \<open>NaN\<close> when there is none.
\<close>

definition parseFloat_str :: "string \<Rightarrow> jsnum" where
  "parseFloat_str s =
     (let (neg, S) = strip_sign (dropWhile is_space s) in
      if take 8 S = ''Infinity'' then (if neg then NegInf else PosInf)
      else
        let ip = takeWhile is_dec S;
            r1 = dropWhile is_dec S;
            dot = (case r1 of [] \<Rightarrow> False | c # t \<Rightarrow> c = CHR ''.'');
            fp = (if dot then takeWhile is_dec (tl r1) else []);
            r2 = (if dot then dropWhile is_dec (tl r1) else r1)
        in if ip = [] \<and> fp = [] then NaN
           else
             let m = of_nat (radix_val 10 dec_digit ip)
                       + of_nat (radix_val 10 dec_digit fp) / 10 ^ length fp;
                 v = scale10 m (exponent_part r2)
             in Fin (if neg then - v else v))"

text \<open>
  The value of a form field: the string an input element delivered, or the number the
  field was initialised with.
\<close>

datatype field = FStr string | FNum int

fun ToString :: "field \<Rightarrow> string" where
  "ToString (FStr s) = s"
| "ToString (FNum n) = show_int n"

definition parseInt :: "field \<Rightarrow> jsnum" where
  "parseInt v = parseInt_str (ToString v)"

definition parseFloat :: "field \<Rightarrow> jsnum" where
  "parseFloat v = parseFloat_str (ToString v)"

subsection \<open>Storage, requests and the log\<close>

datatype http_method = GET | POST | PUT | DELETE

record request =
  http_method :: http_method
  url :: string
  authorization :: "string option"
  body :: jsval

text \<open>
  A rejected request carries the error object axios throws; only
  \<open>error.response?.data\<close> is ever read. A \<open>TypeError\<close> thrown inside a \<open>try\<close> block
  reaches the same \<open>catch\<close> and has no \<open>response\<close>.
\<close>

datatype error = TypeError | Network_error | Http_error jsval

text \<open>\<open>error.response?.data?.detail\<close>\<close>

fun error_detail :: "error \<Rightarrow> jsval" where
  "error_detail (Http_error d) = opt_chain d ''detail''"
| "error_detail e = JUndefined"

datatype event =
    Request request
  | Toast_success string
  | Toast_error jsval
  | Console_error string
  | Save_file string string

record world =
  localStorage :: "string \<rightharpoonup> string"
  log :: "event list"

fun requests :: "event list \<Rightarrow> request list" where
  "requests [] = []"
| "requests (Request r # evs) = r # requests evs"
| "requests (ev # evs) = requests evs"

definition emit :: "event \<Rightarrow> 'a world_scheme \<Rightarrow> 'a world_scheme" where
  "emit ev w = w\<lparr>log := log w @ [ev]\<rparr>"

text \<open>
  The backend: its answer to a request is a function of all requests issued so far,
  the latest last. One run of the application against any backend, failing network
  included, is described by such a function.
\<close>

type_synonym 'r backend = "request list \<Rightarrow> error + 'r"

definition axios :: "'r backend \<Rightarrow> request \<Rightarrow> 'a world_scheme \<Rightarrow> (error + 'r) \<times> 'a world_scheme" where
  "axios srv r w = (let w' = emit (Request r) w in (srv (requests (log w')), w'))"

text \<open>\<open>localStorage.getItem(k)\<close>: \<open>None\<close> is \<open>null\<close>.\<close>

definition getItem :: "'a world_scheme \<Rightarrow> string \<Rightarrow> string option" where
  "getItem w k = localStorage w k"

definition item_value :: "string option \<Rightarrow> jsval" where
  "item_value t = (case t of None \<Rightarrow> JNull | Some v \<Rightarrow> JStr v)"

text \<open>\<open>`Bearer ${token}`\<close>\<close>

definition bearer :: "string option \<Rightarrow> string" where
  "bearer token = ''Bearer '' @ (case token of None \<Rightarrow> ''null'' | Some t \<Rightarrow> t)"

text \<open>\<open>const API = `${BACKEND_URL}/api`\<close>\<close>

definition API :: "string \<Rightarrow> string" where
  "API backend_url = backend_url @ ''/api''"

section \<open>Entities and the backend\<close>

text \<open>
  Field names carry a prefix where two records of the source share a name: \<open>e_\<close> for
  an employee, \<open>p_\<close> for a payslip, and the component's name for its React state.
  An employee object fetched from the backend has an \<open>id\<close>; the employee form's draft
  has none until an employee is copied into it.
\<close>

type_synonym salary_components = "(string \<times> jsval) list"

record employee =
  e_id :: "string option"
  e_employee_no :: string
  e_name :: string
  e_designation :: string
  e_date_of_joining :: string
  e_work_location :: string
  e_department :: string
  e_bank_account_no :: string
  e_salary_components :: salary_components

record payslip =
  p_id :: string
  p_employee_id :: string
  p_employee_no :: string
  p_month :: int
  p_year :: int
  p_paid_days :: int
  p_lop_days :: int

record stats =
  total_active_employees :: jsnum
  total_monthly_payroll :: jsnum
  total_payslips_generated :: jsnum

text \<open>
  The environment of a component: \<open>process.env.REACT_APP_BACKEND_URL\<close>, the year of
  \<open>new Date()\<close>, and the backend, one answer function for each shape of response
  body (section 6 of the specification). A promotion is never inspected by a handler
  and stays a JSON value. \<open>mutate\<close> answers the requests whose response body is not
  read.
\<close>

record env =
  BACKEND_URL :: string
  current_year :: int
  get_employees :: "employee list backend"
  get_payslips :: "payslip list backend"
  get_promotions :: "jsval list backend"
  get_stats :: "stats backend"
  get_blob :: "string backend"
  mutate :: "unit backend"

text \<open>
  A request with the header \<open>Authorization: `Bearer ${token}`\<close>; the body is what
  axios puts on the wire.
\<close>

definition authorized :: "http_method \<Rightarrow> string \<Rightarrow> jsval \<Rightarrow> string option \<Rightarrow> request" where
  "authorized m u b token =
     \<lparr>http_method = m, url = u, authorization = Some (bearer token), body = to_json b\<rparr>"

text \<open>
  The requests of \<open>axios.get\<close>, \<open>axios.delete\<close>, \<open>axios.post\<close> and \<open>axios.put\<close> at
  \<open>`${API}${path}`\<close>.
\<close>

definition get_request :: "env \<Rightarrow> string \<Rightarrow> string option \<Rightarrow> request" where
  "get_request env path token = authorized GET (API (BACKEND_URL env) @ path) JUndefined token"

definition delete_request :: "env \<Rightarrow> string \<Rightarrow> string option \<Rightarrow> request" where
  "delete_request env path token = authorized DELETE (API (BACKEND_URL env) @ path) JUndefined token"

definition post_request :: "env \<Rightarrow> string \<Rightarrow> jsval \<Rightarrow> string option \<Rightarrow> request" where
  "post_request env path payload token = authorized POST (API (BACKEND_URL env) @ path) payload token"

definition put_request :: "env \<Rightarrow> string \<Rightarrow> jsval \<Rightarrow> string option \<Rightarrow> request" where
  "put_request env path payload token = authorized PUT (API (BACKEND_URL env) @ path) payload token"

section \<open>Settings: the credential-change form\<close>

record credentials_form =
  current_password :: string
  new_username :: string
  new_password :: string
  confirm_password :: string

record Settings_state = world +
  Settings_formData :: credentials_form
  Settings_loading :: bool

text \<open>The object literal handed to \<open>axios.put\<close>.\<close>

definition Settings_payload :: "credentials_form \<Rightarrow> jsval" where
  "Settings_payload f = JObj
     [(''current_password'', JStr (current_password f)),
      (''new_username'', js_or (JStr (new_username f)) JUndefined),
      (''new_password'', js_or (JStr (new_password f)) JUndefined)]"

definition Settings_empty_form :: credentials_form where
  "Settings_empty_form =
     \<lparr>current_password = '''', new_username = '''', new_password = '''', confirm_password = ''''\<rparr>"

definition Settings_handleSubmit :: "env \<Rightarrow> Settings_state \<Rightarrow> Settings_state" where
  "Settings_handleSubmit env s =
     (if new_password (Settings_formData s) \<noteq> confirm_password (Settings_formData s)
      then emit (Toast_error (JStr ''New password and confirm password do not match'')) s
      else
        let s1 = s\<lparr>Settings_loading := True\<rparr>;
            token = getItem s1 ''token'';
            (res, s2) = axios (mutate env)
                          (put_request env ''/admin/credentials''
                             (Settings_payload (Settings_formData s1)) token) s1;
            s3 = (case res of
                    Inr _ \<Rightarrow>
                      let t1 = emit (Toast_success ''Admin credentials updated successfully'') s2;
                          t2 = (if truthy (JStr (new_username (Settings_formData t1)))
                                then t1\<lparr>localStorage := (localStorage t1)
                                         (''username'' \<mapsto> new_username (Settings_formData t1))\<rparr>
                                else t1)
                      in t2\<lparr>Settings_formData := Settings_empty_form\<rparr>
                  | Inl err \<Rightarrow>
                      emit (Toast_error (js_or (error_detail err)
                                               (JStr ''Failed to update credentials''))) s2)
        in s3\<lparr>Settings_loading := False\<rparr>)"

section \<open>App: the session store and the routes\<close>

record App_state = world +
  isAuthenticated :: bool
  isLoading :: bool

text \<open>The state of the first render: \<open>useState(false)\<close>, \<open>useState(true)\<close>.\<close>

definition App_initial :: "(string \<rightharpoonup> string) \<Rightarrow> App_state" where
  "App_initial storage =
     \<lparr>localStorage = storage, log = [], isAuthenticated = False, isLoading = True\<rparr>"

text \<open>The effect that runs once after the first render.\<close>

definition App_useEffect :: "App_state \<Rightarrow> App_state" where
  "App_useEffect s =
     (let token = getItem s ''token'';
          s1 = (if truthy (item_value token) then s\<lparr>isAuthenticated := True\<rparr> else s)
      in s1\<lparr>isLoading := False\<rparr>)"

definition handleLogin :: "string \<Rightarrow> string \<Rightarrow> App_state \<Rightarrow> App_state" where
  "handleLogin token username s =
     s\<lparr>localStorage := (localStorage s)(''token'' \<mapsto> token, ''username'' \<mapsto> username),
       isAuthenticated := True\<rparr>"

definition handleLogout :: "App_state \<Rightarrow> App_state" where
  "handleLogout s =
     s\<lparr>localStorage := (localStorage s)(''token'' := None, ''username'' := None),
       isAuthenticated := False\<rparr>"

text \<open>
  What \<open>App\<close> renders at a location. The route table is the one of \<open>App.js\<close>; the
  matching is the router's: trailing slashes are ignored, letters compare without
  case, and a location that matches no route renders nothing.
\<close>

datatype page = Dashboard | Employees | Promotions | Payslips | Settings

datatype element =
    Loading_screen
  | Navigate string
  | Login
  | Layout element
  | Page page
  | No_match

definition lower :: "char \<Rightarrow> char" where
  "lower c =
     (case map_of (zip ''ABCDEFGHIJKLMNOPQRSTUVWXYZ'' ''abcdefghijklmnopqrstuvwxyz'') c of
        None \<Rightarrow> c
      | Some l \<Rightarrow> l)"

definition normalize_path :: "string \<Rightarrow> string" where
  "normalize_path pathname = map lower (rev (dropWhile (\<lambda>c. c = CHR ''/'') (rev pathname)))"

text \<open>
  The route \<open>/\<close> and its children, by normalised location: what the \<open>Outlet\<close> of the
  layout shows.
\<close>

definition child_route :: "string \<Rightarrow> element option" where
  "child_route = map_of
     [('''', Navigate ''/dashboard''),
      (''/dashboard'', Page Dashboard),
      (''/employees'', Page Employees),
      (''/promotions'', Page Promotions),
      (''/payslips'', Page Payslips),
      (''/settings'', Page Settings)]"

definition Routes :: "bool \<Rightarrow> string \<Rightarrow> element" where
  "Routes authenticated pathname =
     (let p = normalize_path pathname in
      if p = ''/login'' then (if authenticated then Navigate ''/dashboard'' else Login)
      else
        (case child_route p of
           None \<Rightarrow> No_match
         | Some child \<Rightarrow> if authenticated then Layout child else Navigate ''/login''))"

definition App :: "App_state \<Rightarrow> string \<Rightarrow> element" where
  "App s pathname = (if isLoading s then Loading_screen else Routes (isAuthenticated s) pathname)"

section \<open>Promotions\<close>

record promotion_form =
  pf_employee_id :: string
  pf_new_designation :: string
  pf_promotion_date :: string
  pf_new_salary_components :: salary_components

record Promotions_state = world +
  Promotions_promotions :: "jsval list"
  Promotions_employees :: "employee list"
  Promotions_loading :: bool
  Promotions_dialogOpen :: bool
  Promotions_formData :: promotion_form

text \<open>The argument of \<open>useState\<close> for \<open>formData\<close>.\<close>

definition Promotions_initial_formData :: promotion_form where
  "Promotions_initial_formData =
     \<lparr>pf_employee_id = '''', pf_new_designation = '''', pf_promotion_date = '''',
      pf_new_salary_components =
        [(''basic'', JNum (Fin 0)), (''house_rent_allowance'', JNum (Fin 0)),
         (''transport_allowance'', JNum (Fin 0)), (''fixed_allowance'', JNum (Fin 0)),
         (''professional_tax'', JNum (Fin 0))]\<rparr>"

definition Promotions_resetForm :: "Promotions_state \<Rightarrow> Promotions_state" where
  "Promotions_resetForm s =
     s\<lparr>Promotions_formData :=
         \<lparr>pf_employee_id = '''', pf_new_designation = '''', pf_promotion_date = '''',
          pf_new_salary_components =
            [(''basic'', JNum (Fin 0)), (''house_rent_allowance'', JNum (Fin 0)),
             (''transport_allowance'', JNum (Fin 0)), (''fixed_allowance'', JNum (Fin 0)),
             (''professional_tax'', JNum (Fin 0))]\<rparr>\<rparr>"

text \<open>The draft as the request body.\<close>

definition promotion_form_object :: "promotion_form \<Rightarrow> jsval" where
  "promotion_form_object f = JObj
     [(''employee_id'', JStr (pf_employee_id f)),
      (''new_designation'', JStr (pf_new_designation f)),
      (''promotion_date'', JStr (pf_promotion_date f)),
      (''new_salary_components'', JObj (pf_new_salary_components f))]"

text \<open>
  \<open>Promise.all\<close> of two requests: both are issued, and the result is a failure as soon
  as one of them fails.
\<close>

definition Promotions_fetchData :: "env \<Rightarrow> Promotions_state \<Rightarrow> Promotions_state" where
  "Promotions_fetchData env s =
     (let token = getItem s ''token'';
          (promotionsRes, s1) = axios (get_promotions env)
             (get_request env ''/promotions'' token) s;
          (employeesRes, s2) = axios (get_employees env)
             (get_request env ''/employees'' token) s1;
          s3 = (case (promotionsRes, employeesRes) of
                  (Inr ps, Inr es) \<Rightarrow> s2\<lparr>Promotions_promotions := ps, Promotions_employees := es\<rparr>
                | _ \<Rightarrow> emit (Toast_error (JStr ''Failed to fetch data'')) s2)
      in s3\<lparr>Promotions_loading := False\<rparr>)"

definition Promotions_handleSubmit :: "env \<Rightarrow> Promotions_state \<Rightarrow> Promotions_state" where
  "Promotions_handleSubmit env s =
     (let token = getItem s ''token'';
          (res, s1) = axios (mutate env)
             (post_request env ''/promotions''
                (promotion_form_object (Promotions_formData s)) token) s
      in case res of
           Inr _ \<Rightarrow>
             Promotions_fetchData env
               (Promotions_resetForm
                  ((emit (Toast_success ''Promotion created successfully'') s1)
                     \<lparr>Promotions_dialogOpen := False\<rparr>))
         | Inl err \<Rightarrow>
             emit (Toast_error (js_or (error_detail err) (JStr ''Failed to create promotion''))) s1)"

definition Promotions_handleEmployeeChange :: "string \<Rightarrow> Promotions_state \<Rightarrow> Promotions_state" where
  "Promotions_handleEmployeeChange employeeId s =
     (case find (\<lambda>e. e_id e = Some employeeId) (Promotions_employees s) of
        Some employee \<Rightarrow>
          s\<lparr>Promotions_formData := (Promotions_formData s)
              \<lparr>pf_employee_id := employeeId,
               pf_new_designation := e_designation employee,
               pf_new_salary_components := e_salary_components employee\<rparr>\<rparr>
      | None \<Rightarrow> s)"



section \<open>Employees\<close>

record Employees_state = world +
  Employees_employees :: "employee list"
  Employees_loading :: bool
  Employees_dialogOpen :: bool
  Employees_editingEmployee :: "employee option"
  Employees_deleteDialogOpen :: bool
  Employees_employeeToDelete :: "employee option"
  Employees_formData :: employee

text \<open>The argument of \<open>useState\<close> for \<open>formData\<close>.\<close>

definition Employees_initial_formData :: employee where
  "Employees_initial_formData =
     \<lparr>e_id = None, e_employee_no = '''', e_name = '''', e_designation = '''',
      e_date_of_joining = '''', e_work_location = '''', e_department = '''',
      e_bank_account_no = '''',
      e_salary_components =
        [(''basic'', JNum (Fin 0)), (''house_rent_allowance'', JNum (Fin 0)),
         (''transport_allowance'', JNum (Fin 0)), (''fixed_allowance'', JNum (Fin 0)),
         (''professional_tax'', JNum (Fin 0))]\<rparr>"

text \<open>The object \<open>resetForm\<close> assigns; it has one salary component more.\<close>

definition Employees_reset_formData :: employee where
  "Employees_reset_formData =
     \<lparr>e_id = None, e_employee_no = '''', e_name = '''', e_designation = '''',
      e_date_of_joining = '''', e_work_location = '''', e_department = '''',
      e_bank_account_no = '''',
      e_salary_components =
        [(''basic'', JNum (Fin 0)), (''house_rent_allowance'', JNum (Fin 0)),
         (''transport_allowance'', JNum (Fin 0)), (''fixed_allowance'', JNum (Fin 0)),
         (''home_collection_visit'', JNum (Fin 0)), (''professional_tax'', JNum (Fin 0))]\<rparr>"

definition Employees_resetForm :: "Employees_state \<Rightarrow> Employees_state" where
  "Employees_resetForm s =
     s\<lparr>Employees_formData := Employees_reset_formData, Employees_editingEmployee := None\<rparr>"

text \<open>An employee object as a request body; \<open>id\<close> is a property only when present.\<close>

definition employee_object :: "employee \<Rightarrow> jsval" where
  "employee_object e = JObj
     ((case e_id e of None \<Rightarrow> [] | Some i \<Rightarrow> [(''id'', JStr i)]) @
      [(''employee_no'', JStr (e_employee_no e)),
       (''name'', JStr (e_name e)),
       (''designation'', JStr (e_designation e)),
       (''date_of_joining'', JStr (e_date_of_joining e)),
       (''work_location'', JStr (e_work_location e)),
       (''department'', JStr (e_department e)),
       (''bank_account_no'', JStr (e_bank_account_no e)),
       (''salary_components'', JObj (e_salary_components e))])"

definition fetchEmployees :: "env \<Rightarrow> Employees_state \<Rightarrow> Employees_state" where
  "fetchEmployees env s =
     (let token = getItem s ''token'';
          (response, s1) = axios (get_employees env)
             (get_request env ''/employees'' token) s;
          s2 = (case response of
                  Inr es \<Rightarrow> s1\<lparr>Employees_employees := es\<rparr>
                | Inl err \<Rightarrow> emit (Toast_error (JStr ''Failed to fetch employees'')) s1)
      in s2\<lparr>Employees_loading := False\<rparr>)"

text \<open>\<open>`${editingEmployee.id}`\<close>: a missing property prints as \<open>undefined\<close>.\<close>

definition id_string :: "string option \<Rightarrow> string" where
  "id_string i = (case i of None \<Rightarrow> ''undefined'' | Some v \<Rightarrow> v)"

definition Employees_handleSubmit :: "env \<Rightarrow> Employees_state \<Rightarrow> Employees_state" where
  "Employees_handleSubmit env s =
     (let token = getItem s ''token'';
          (res, s1) =
            (case Employees_editingEmployee s of
               Some editing \<Rightarrow>
                 axios (mutate env)
                   (put_request env (''/employees/'' @ id_string (e_id editing))
                      (employee_object (Employees_formData s)) token) s
             | None \<Rightarrow>
                 axios (mutate env)
                   (post_request env ''/employees''
                      (employee_object (Employees_formData s)) token) s)
      in case res of
           Inr _ \<Rightarrow>
             fetchEmployees env
               (Employees_resetForm
                  ((emit (Toast_success
                            (case Employees_editingEmployee s of
                               Some editing \<Rightarrow> ''Employee updated successfully''
                             | None \<Rightarrow> ''Employee created successfully'')) s1)
                     \<lparr>Employees_dialogOpen := False\<rparr>))
         | Inl err \<Rightarrow>
             emit (Toast_error (js_or (error_detail err) (JStr ''Operation failed''))) s1)"


section \<open>Payslips\<close>

record payslip_form =
  f_employee_id :: string
  f_month :: string
  f_year :: string
  f_paid_days :: field
  f_lop_days :: field
  f_home_collection_visit :: field

record edit_form =
  ed_paid_days :: field
  ed_lop_days :: field

record Payslips_state = world +
  Payslips_payslips :: "payslip list"
  Payslips_employees :: "employee list"
  Payslips_loading :: bool
  Payslips_dialogOpen :: bool
  Payslips_editingPayslip :: "string option"
  Payslips_editFormData :: edit_form
  Payslips_formData :: payslip_form

text \<open>The argument of \<open>useState\<close> for \<open>formData\<close>.\<close>

definition Payslips_initial_formData :: "env \<Rightarrow> payslip_form" where
  "Payslips_initial_formData env =
     \<lparr>f_employee_id = '''', f_month = '''', f_year = show_int (current_year env),
      f_paid_days = FNum 30, f_lop_days = FNum 0, f_home_collection_visit = FNum 0\<rparr>"

definition months :: "(string \<times> string) list" where
  "months =
     [(''1'', ''January''), (''2'', ''February''), (''3'', ''March''), (''4'', ''April''),
      (''5'', ''May''), (''6'', ''June''), (''7'', ''July''), (''8'', ''August''),
      (''9'', ''September''), (''10'', ''October''), (''11'', ''November''),
      (''12'', ''December'')]"

text \<open>
  \<open>months[month - 1].label\<close>: an index outside the array reads \<open>undefined\<close>, and the
  property access on it throws a \<open>TypeError\<close>.
\<close>

definition month_label :: "int \<Rightarrow> error + string" where
  "month_label month =
     (if 0 \<le> month - 1 \<and> month - 1 < int (length months)
      then Inr (snd (months ! nat (month - 1)))
      else Inl TypeError)"

definition Payslips_fetchData :: "env \<Rightarrow> Payslips_state \<Rightarrow> Payslips_state" where
  "Payslips_fetchData env s =
     (let token = getItem s ''token'';
          (payslipsRes, s1) = axios (get_payslips env)
             (get_request env ''/payslips'' token) s;
          (employeesRes, s2) = axios (get_employees env)
             (get_request env ''/employees'' token) s1;
          s3 = (case (payslipsRes, employeesRes) of
                  (Inr ps, Inr es) \<Rightarrow> s2\<lparr>Payslips_payslips := ps, Payslips_employees := es\<rparr>
                | _ \<Rightarrow> emit (Toast_error (JStr ''Failed to fetch data'')) s2)
      in s3\<lparr>Payslips_loading := False\<rparr>)"

definition Payslips_resetForm :: "env \<Rightarrow> Payslips_state \<Rightarrow> Payslips_state" where
  "Payslips_resetForm env s =
     s\<lparr>Payslips_formData :=
         \<lparr>f_employee_id = '''', f_month = '''', f_year = show_int (current_year env),
          f_paid_days = FNum 30, f_lop_days = FNum 0, f_home_collection_visit = FNum 0\<rparr>\<rparr>"

text \<open>The payload of \<open>handleSubmit\<close>: the draft, with its numeric fields parsed.\<close>

definition generate_payload :: "payslip_form \<Rightarrow> jsval" where
  "generate_payload f = JObj
     [(''employee_id'', JStr (f_employee_id f)),
      (''month'', JNum (parseInt (FStr (f_month f)))),
      (''year'', JNum (parseInt (FStr (f_year f)))),
      (''paid_days'', JNum (parseInt (f_paid_days f))),
      (''lop_days'', JNum (parseInt (f_lop_days f))),
      (''home_collection_visit'', js_or (JNum (parseFloat (f_home_collection_visit f))) (JNum (Fin 0)))]"

definition Payslips_handleSubmit :: "env \<Rightarrow> Payslips_state \<Rightarrow> Payslips_state" where
  "Payslips_handleSubmit env s =
     (let token = getItem s ''token'';
          payload = generate_payload (Payslips_formData s);
          (res, s1) = axios (mutate env)
             (post_request env ''/payslips/generate'' payload token) s
      in case res of
           Inr _ \<Rightarrow>
             Payslips_fetchData env
               (Payslips_resetForm env
                  ((emit (Toast_success ''Payslip generated successfully'') s1)
                     \<lparr>Payslips_dialogOpen := False\<rparr>))
         | Inl err \<Rightarrow>
             emit (Toast_error (js_or (error_detail err) (JStr ''Failed to generate payslip''))) s1)"

text \<open>
  \<open>handleDownload\<close>: the click on the temporary link is the event \<open>Save_file\<close> with
  the link's \<open>download\<close> attribute and the content of the blob.
\<close>

definition download_name :: "string \<Rightarrow> string \<Rightarrow> int \<Rightarrow> string" where
  "download_name employeeNo label year =
     ''payslip_'' @ employeeNo @ ''_'' @ label @ ''_'' @ show_int year @ ''.pdf''"

definition Payslips_handleDownload ::
  "env \<Rightarrow> string \<Rightarrow> string \<Rightarrow> int \<Rightarrow> int \<Rightarrow> Payslips_state \<Rightarrow> Payslips_state" where
  "Payslips_handleDownload env payslipId employeeNo month year s =
     (let token = getItem s ''token'';
          (response, s1) = axios (get_blob env)
             (get_request env (''/payslips/download/'' @ payslipId) token) s;
          catch = (\<lambda>err t.
             emit (Toast_error (js_or (error_detail err) (JStr ''Failed to download payslip'')))
               (emit (Console_error ''Download error:'') t))
      in case response of
           Inl err \<Rightarrow> catch err s1
         | Inr blob \<Rightarrow>
             (case month_label month of
                Inl err \<Rightarrow> catch err s1
              | Inr label \<Rightarrow>
                  emit (Toast_success ''Payslip downloaded successfully'')
                    (emit (Save_file (download_name employeeNo label year) blob) s1)))"


text \<open>
  The earlier revision of the component (no edit in place) has its own
  \<open>handleDownload\<close>: the same request and file name, a fixed failure message and no
  console trace. It reads and writes no React state, so it is stated on any state.
\<close>

definition Payslips0_handleDownload ::
  "env \<Rightarrow> string \<Rightarrow> string \<Rightarrow> int \<Rightarrow> int \<Rightarrow> 'a world_scheme \<Rightarrow> 'a world_scheme" where
  "Payslips0_handleDownload env payslipId employeeNo month year s =
     (let token = getItem s ''token'';
          (response, s1) = axios (get_blob env)
             (get_request env (''/payslips/download/'' @ payslipId) token) s;
          catch = (\<lambda>t. emit (Toast_error (JStr ''Failed to download payslip'')) t)
      in case response of
           Inl err \<Rightarrow> catch s1
         | Inr blob \<Rightarrow>
             (case month_label month of
                Inl err \<Rightarrow> catch s1
              | Inr label \<Rightarrow>
                  emit (Toast_success ''Payslip downloaded successfully'')
                    (emit (Save_file (download_name employeeNo label year) blob) s1)))"

section \<open>Dashboard\<close>

record Dashboard_state = world +
  Dashboard_stats :: stats
  Dashboard_loading :: bool

definition fetchStats :: "env \<Rightarrow> Dashboard_state \<Rightarrow> Dashboard_state" where
  "fetchStats env s =
     (let token = getItem s ''token'';
          (response, s1) = axios (get_stats env)
             (get_request env ''/dashboard/stats'' token) s;
          s2 = (case response of
                  Inr st \<Rightarrow> s1\<lparr>Dashboard_stats := st\<rparr>
                | Inl err \<Rightarrow> emit (Console_error ''Error fetching stats:'') s1)
      in s2\<lparr>Dashboard_loading := False\<rparr>)"

section \<open>Notions the properties are stated with\<close>



text \<open>The session: a token is stored when the item \<open>token\<close> exists and is not empty.\<close>

definition token_stored :: "(string \<rightharpoonup> string) \<Rightarrow> bool" where
  "token_stored storage = (case storage ''token'' of None \<Rightarrow> False | Some t \<Rightarrow> t \<noteq> '''')"

definition session_inv :: "App_state \<Rightarrow> bool" where
  "session_inv s = (isAuthenticated s = token_stored (localStorage s))"

text \<open>
  The operations of the session store after startup: a login that succeeded, with the
  token and name of the backend's answer, and a click on logout.
\<close>

datatype session_action = Login_success string string | Logout_click

fun session_step :: "App_state \<Rightarrow> session_action \<Rightarrow> App_state" where
  "session_step s (Login_success token username) = handleLogin token username s"
| "session_step s Logout_click = handleLogout s"

definition session_run :: "(string \<rightharpoonup> string) \<Rightarrow> session_action list \<Rightarrow> App_state" where
  "session_run storage acts = foldl session_step (App_useEffect (App_initial storage)) acts"

fun nonempty_token :: "session_action \<Rightarrow> bool" where
  "nonempty_token (Login_success token username) = (token \<noteq> '''')"
| "nonempty_token Logout_click = True"

text \<open>A location under the authenticated section: it matches the route \<open>/\<close> or a child of it.\<close>

definition protected_path :: "string \<Rightarrow> bool" where
  "protected_path pathname = (child_route (normalize_path pathname) \<noteq> None)"


subsection \<open>Sample data\<close>

definition alice :: employee where
  "alice =
     \<lparr>e_id = Some ''e1'', e_employee_no = ''EMP001'', e_name = ''Alice'',
      e_designation = ''Engineer'', e_date_of_joining = ''2020-01-15'',
      e_work_location = ''Pune'', e_department = ''R&D'', e_bank_account_no = ''0012'',
      e_salary_components =
        [(''basic'', JNum (Fin 50000)), (''house_rent_allowance'', JNum (Fin 20000)),
         (''transport_allowance'', JNum (Fin 1600)), (''fixed_allowance'', JNum (Fin 5000)),
         (''professional_tax'', JNum (Fin 200))]\<rparr>"

definition bob :: employee where
  "bob =
     \<lparr>e_id = Some ''e2'', e_employee_no = ''EMP002'', e_name = ''Bob'',
      e_designation = ''Analyst'', e_date_of_joining = ''2021-06-01'',
      e_work_location = ''Mumbai'', e_department = ''Finance'', e_bank_account_no = ''0034'',
      e_salary_components =
        [(''basic'', JNum (Fin 30000)), (''house_rent_allowance'', JNum (Fin 12000)),
         (''transport_allowance'', JNum (Fin 1600)), (''fixed_allowance'', JNum (Fin 2000)),
         (''professional_tax'', JNum (Fin 200))]\<rparr>"

definition march_payslip :: payslip where
  "march_payslip =
     \<lparr>p_id = ''p1'', p_employee_id = ''e1'', p_employee_no = ''EMP001'', p_month = 3,
      p_year = 2025, p_paid_days = 30, p_lop_days = 0\<rparr>"

definition april_payslip :: payslip where
  "april_payslip =
     \<lparr>p_id = ''p2'', p_employee_id = ''e2'', p_employee_no = ''EMP002'', p_month = 4,
      p_year = 2025, p_paid_days = 28, p_lop_days = 2\<rparr>"

definition april_stats :: stats where
  "april_stats =
     \<lparr>total_active_employees = Fin 2, total_monthly_payroll = Fin 124400,
      total_payslips_generated = Fin 2\<rparr>"

definition zero_stats :: stats where
  "zero_stats =
     \<lparr>total_active_employees = Fin 0, total_monthly_payroll = Fin 0,
      total_payslips_generated = Fin 0\<rparr>"

text \<open>A backend that accepts every request, and one that rejects every request.\<close>

definition backend_up :: env where
  "backend_up =
     \<lparr>BACKEND_URL = ''http://localhost:8001'', current_year = 2025,
      get_employees = (\<lambda>h. Inr [alice, bob]),
      get_payslips = (\<lambda>h. Inr [march_payslip, april_payslip]),
      get_promotions = (\<lambda>h. Inr [JObj [(''id'', JStr ''pr1'')]]),
      get_stats = (\<lambda>h. Inr april_stats),
      get_blob = (\<lambda>h. Inr ''%PDF-1.4''),
      mutate = (\<lambda>h. Inr ())\<rparr>"

definition rejection :: error where
  "rejection = Http_error (JObj [(''detail'', JStr ''Request rejected'')])"

definition backend_down :: env where
  "backend_down =
     \<lparr>BACKEND_URL = ''http://localhost:8001'', current_year = 2025,
      get_employees = (\<lambda>h. Inl rejection),
      get_payslips = (\<lambda>h. Inl rejection),
      get_promotions = (\<lambda>h. Inl rejection),
      get_stats = (\<lambda>h. Inl rejection),
      get_blob = (\<lambda>h. Inl rejection),
      mutate = (\<lambda>h. Inl rejection)\<rparr>"

text \<open>A backend that cannot be reached: the error has no response.\<close>

definition backend_offline :: env where
  "backend_offline =
     \<lparr>BACKEND_URL = ''http://localhost:8001'', current_year = 2025,
      get_employees = (\<lambda>h. Inl Network_error),
      get_payslips = (\<lambda>h. Inl Network_error),
      get_promotions = (\<lambda>h. Inl Network_error),
      get_stats = (\<lambda>h. Inl Network_error),
      get_blob = (\<lambda>h. Inl Network_error),
      mutate = (\<lambda>h. Inl Network_error)\<rparr>"


definition signed_in :: "string \<rightharpoonup> string" where
  "signed_in = [''token'' \<mapsto> ''t0'', ''username'' \<mapsto> ''admin'']"

definition Settings_sample :: "string \<Rightarrow> string \<Rightarrow> string \<Rightarrow> Settings_state" where
  "Settings_sample username password confirm =
     \<lparr>localStorage = signed_in, log = [],
      Settings_formData =
        \<lparr>current_password = ''old'', new_username = username, new_password = password,
         confirm_password = confirm\<rparr>,
      Settings_loading = False\<rparr>"

definition Promotions_sample :: Promotions_state where
  "Promotions_sample =
     \<lparr>localStorage = signed_in, log = [],
      Promotions_promotions = [], Promotions_employees = [alice, bob],
      Promotions_loading = False, Promotions_dialogOpen = True,
      Promotions_formData =
        \<lparr>pf_employee_id = ''e1'', pf_new_designation = ''Lead'',
         pf_promotion_date = ''2025-04-01'',
         pf_new_salary_components = [(''basic'', JNum (Fin 60000))]\<rparr>\<rparr>"

definition Employees_sample :: Employees_state where
  "Employees_sample =
     \<lparr>localStorage = signed_in, log = [],
      Employees_employees = [alice], Employees_loading = False, Employees_dialogOpen = True,
      Employees_editingEmployee = None, Employees_deleteDialogOpen = False,
      Employees_employeeToDelete = None,
      Employees_formData = bob\<lparr>e_id := None\<rparr>\<rparr>"

definition Payslips_sample :: "field \<Rightarrow> field \<Rightarrow> Payslips_state" where
  "Payslips_sample paid lop =
     \<lparr>localStorage = signed_in, log = [],
      Payslips_payslips = [march_payslip], Payslips_employees = [alice],
      Payslips_loading = False, Payslips_dialogOpen = True,
      Payslips_editingPayslip = Some ''p1'',
      Payslips_editFormData = \<lparr>ed_paid_days = paid, ed_lop_days = lop\<rparr>,
      Payslips_formData =
        \<lparr>f_employee_id = ''e2'', f_month = ''4'', f_year = ''2025'', f_paid_days = paid,
         f_lop_days = lop, f_home_collection_visit = FStr ''''\<rparr>\<rparr>"

definition Dashboard_sample :: Dashboard_state where
  "Dashboard_sample =
     \<lparr>localStorage = signed_in, log = [], Dashboard_stats = zero_stats,
      Dashboard_loading = True\<rparr>"

section \<open>Properties\<close>

subsection \<open>Running a handler\<close>

lemma requests_append: "requests (xs @ ys) = requests xs @ requests ys"
  by (induction xs rule: requests.induct) simp_all

lemma axios_eq:
  "axios srv r w = (srv (requests (log w) @ [r]), w\<lparr>log := log w @ [Request r]\<rparr>)"
  by (simp add: axios_def emit_def requests_append Let_def)

lemmas run_simps = axios_eq emit_def requests_append getItem_def Let_def

lemmas request_defs =
  get_request_def delete_request_def post_request_def put_request_def authorized_def
  API_def bearer_def

subsection \<open>Settings\<close>

text \<open>
  Claim C4. When the draft's new password differs from its confirmation, submitting
  the credential-change form only shows the error notification: the log gains that one
  entry, no request is issued, and the draft, the loading flag and the storage are as
  before.
\<close>

theorem Settings_mismatch_aborts:
  assumes "new_password (Settings_formData s) \<noteq> confirm_password (Settings_formData s)"
  shows "log (Settings_handleSubmit env s) =
           log s @ [Toast_error (JStr ''New password and confirm password do not match'')]
       \<and> requests (log (Settings_handleSubmit env s)) = requests (log s)
       \<and> Settings_formData (Settings_handleSubmit env s) = Settings_formData s
       \<and> Settings_loading (Settings_handleSubmit env s) = Settings_loading s
       \<and> localStorage (Settings_handleSubmit env s) = localStorage s"
  using assms by (simp add: Settings_handleSubmit_def emit_def requests_append)

theorem Settings_mismatch_aborts_witness:
  "new_password (Settings_formData (Settings_sample '''' ''abc'' ''xyz''))
     \<noteq> confirm_password (Settings_formData (Settings_sample '''' ''abc'' ''xyz''))
   \<and> log (Settings_handleSubmit backend_up (Settings_sample '''' ''abc'' ''xyz'')) =
       [Toast_error (JStr ''New password and confirm password do not match'')]
   \<and> requests (log (Settings_handleSubmit backend_up (Settings_sample '''' ''abc'' ''xyz''))) = []
   \<and> Settings_formData (Settings_handleSubmit backend_up (Settings_sample '''' ''abc'' ''xyz'')) =
       \<lparr>current_password = ''old'', new_username = '''', new_password = ''abc'',
        confirm_password = ''xyz''\<rparr>"
  using Settings_mismatch_aborts [of "Settings_sample '''' ''abc'' ''xyz''" backend_up]
  by (simp add: Settings_sample_def)

text \<open>
  Claim C3. A submission that passes the password check issues one request, a
  \<open>PUT\<close> to \<open>/admin/credentials\<close>. Its body always has the key \<open>current_password\<close>;
  it has the key \<open>new_username\<close> exactly when the draft's new username is not empty,
  and the key \<open>new_password\<close> exactly when the draft's new password is not empty. An
  empty value is never sent: the key is absent.
\<close>

theorem Settings_payload_omits_empty:
  assumes "new_password (Settings_formData s) = confirm_password (Settings_formData s)"
  shows "requests (log (Settings_handleSubmit env s)) = requests (log s) @
           [\<lparr>http_method = PUT,
             url = BACKEND_URL env @ ''/api/admin/credentials'',
             authorization = Some (bearer (getItem s ''token'')),
             body = JObj
               ([(''current_password'', JStr (current_password (Settings_formData s)))] @
                (if new_username (Settings_formData s) = '''' then []
                 else [(''new_username'', JStr (new_username (Settings_formData s)))]) @
                (if new_password (Settings_formData s) = '''' then []
                 else [(''new_password'', JStr (new_password (Settings_formData s)))]))\<rparr>]"
  using assms
  by (simp add: Settings_handleSubmit_def run_simps put_request_def authorized_def API_def
      Settings_payload_def js_or_def split: sum.splits)

theorem Settings_payload_omits_empty_witness:
  "new_password (Settings_formData (Settings_sample '''' '''' ''''))
     = confirm_password (Settings_formData (Settings_sample '''' '''' ''''))
   \<and> requests (log (Settings_handleSubmit backend_up (Settings_sample '''' '''' ''''))) =
       [\<lparr>http_method = PUT, url = ''http://localhost:8001/api/admin/credentials'',
         authorization = Some ''Bearer t0'',
         body = JObj [(''current_password'', JStr ''old'')]\<rparr>]
   \<and> new_password (Settings_formData (Settings_sample ''root'' ''s3cret'' ''s3cret''))
     = confirm_password (Settings_formData (Settings_sample ''root'' ''s3cret'' ''s3cret''))
   \<and> requests (log (Settings_handleSubmit backend_up (Settings_sample ''root'' ''s3cret'' ''s3cret''))) =
       [\<lparr>http_method = PUT, url = ''http://localhost:8001/api/admin/credentials'',
         authorization = Some ''Bearer t0'',
         body = JObj [(''current_password'', JStr ''old''), (''new_username'', JStr ''root''),
                      (''new_password'', JStr ''s3cret'')]\<rparr>]"
  using Settings_payload_omits_empty [of "Settings_sample '''' '''' ''''" backend_up]
    Settings_payload_omits_empty [of "Settings_sample ''root'' ''s3cret'' ''s3cret''" backend_up]
  by (simp add: Settings_sample_def signed_in_def backend_up_def bearer_def getItem_def)

subsection \<open>The session store and the routes\<close>

lemma session_inv_startup: "session_inv (App_useEffect (App_initial storage))"
  by (simp add: session_inv_def token_stored_def App_useEffect_def App_initial_def getItem_def
      item_value_def split: option.splits)

lemma session_inv_step: "nonempty_token a \<Longrightarrow> session_inv (session_step s a)"
  by (cases a) (simp_all add: session_inv_def token_stored_def handleLogin_def handleLogout_def)

lemma session_inv_foldl:
  "list_all nonempty_token acts \<Longrightarrow> session_inv s \<Longrightarrow> session_inv (foldl session_step s acts)"
  by (induction acts arbitrary: s) (simp_all add: session_inv_step)

text \<open>
  Claim C7, as stated, fails at startup when the stored token is the empty string: the
  item exists, and \<open>if (token)\<close> does not set the authenticated state.
\<close>

theorem empty_token_not_authenticated:
  "localStorage (App_useEffect (App_initial [''token'' \<mapsto> ''''])) ''token'' = Some ''''
   \<and> \<not> isAuthenticated (App_useEffect (App_initial [''token'' \<mapsto> '''']))"
  by (simp add: App_useEffect_def App_initial_def getItem_def item_value_def)

text \<open>
  Claim C7, amended. \<open>handleLogin\<close> stores the token and the username and sets the
  authenticated state; \<open>handleLogout\<close> removes both items and clears it; the startup
  effect sets it exactly when a token that is not empty is stored. Hence, from startup
  on and through every login with a token that is not empty and every logout, the
  authenticated state is true iff such a token is stored.
\<close>

theorem session_store_contract:
  "localStorage (handleLogin token username s) ''token'' = Some token
   \<and> localStorage (handleLogin token username s) ''username'' = Some username
   \<and> isAuthenticated (handleLogin token username s)
   \<and> localStorage (handleLogout s) ''token'' = None
   \<and> localStorage (handleLogout s) ''username'' = None
   \<and> \<not> isAuthenticated (handleLogout s)
   \<and> isAuthenticated (App_useEffect (App_initial storage)) = token_stored storage
   \<and> (list_all nonempty_token acts \<longrightarrow> session_inv (session_run storage acts))"
proof -
  have login: "localStorage (handleLogin token username s) ''token'' = Some token
      \<and> localStorage (handleLogin token username s) ''username'' = Some username
      \<and> isAuthenticated (handleLogin token username s)"
    by (simp add: handleLogin_def)
  have logout: "localStorage (handleLogout s) ''token'' = None
      \<and> localStorage (handleLogout s) ''username'' = None
      \<and> \<not> isAuthenticated (handleLogout s)"
    by (simp add: handleLogout_def)
  have startup: "isAuthenticated (App_useEffect (App_initial storage)) = token_stored storage"
    by (simp add: App_useEffect_def App_initial_def token_stored_def getItem_def item_value_def
        split: option.splits)
  have run: "list_all nonempty_token acts \<longrightarrow> session_inv (session_run storage acts)"
    by (simp add: session_run_def session_inv_foldl session_inv_startup)
  from login logout startup run show ?thesis by blast
qed

theorem session_store_contract_witness:
  "list_all nonempty_token [Login_success ''t1'' ''admin'', Logout_click, Login_success ''t2'' ''root'']
   \<and> session_inv (session_run Map.empty
         [Login_success ''t1'' ''admin'', Logout_click, Login_success ''t2'' ''root''])
   \<and> isAuthenticated (session_run Map.empty
         [Login_success ''t1'' ''admin'', Logout_click, Login_success ''t2'' ''root''])
   \<and> localStorage (session_run Map.empty
         [Login_success ''t1'' ''admin'', Logout_click, Login_success ''t2'' ''root'']) ''token''
       = Some ''t2''
   \<and> \<not> isAuthenticated (session_run Map.empty [Login_success ''t1'' ''admin'', Logout_click])
   \<and> isAuthenticated (App_useEffect (App_initial signed_in))"
  using session_store_contract [of "''t2''" "''root''"
      "session_run Map.empty [Login_success ''t1'' ''admin'', Logout_click]" Map.empty
      "[Login_success ''t1'' ''admin'', Logout_click, Login_success ''t2'' ''root'']"]
    session_store_contract [of "''x''" "''y''" "App_initial Map.empty" signed_in "[]"]
  by (simp add: session_run_def handleLogout_def handleLogin_def token_stored_def signed_in_def)

lemma loaded_foldl: "\<not> isLoading s \<Longrightarrow> \<not> isLoading (foldl session_step s acts)"
proof (induction acts arbitrary: s)
  case Nil
  then show ?case by simp
next
  case (Cons a acts)
  from Cons.prems have "\<not> isLoading (session_step s a)"
    by (cases a) (simp_all add: handleLogin_def handleLogout_def)
  then show ?case
    using Cons.IH by simp
qed

lemma loaded_run: "\<not> isLoading (session_run storage acts)"
  by (simp add: session_run_def loaded_foldl App_useEffect_def)

lemma guard_when_loaded:
  assumes "\<not> isLoading s"
  shows "(\<not> isAuthenticated s \<longrightarrow> protected_path pathname \<longrightarrow> App s pathname = Navigate ''/login'')
       \<and> (isAuthenticated s \<longrightarrow> normalize_path pathname = ''/login''
            \<longrightarrow> App s pathname = Navigate ''/dashboard'')"
  using assms
  by (auto simp add: App_def Routes_def Let_def protected_path_def child_route_def)

text \<open>
  Claim C8. In every state the application reaches from its startup through logins and
  logouts: without a session, every location under the authenticated section (the
  route \<open>/\<close> and its children: the dashboard, employees, promotions, payslips and
  settings pages) renders a redirect to \<open>/login\<close>; with a session, the login location
  renders a redirect to \<open>/dashboard\<close>.
\<close>

theorem routes_guard:
  "(\<not> isAuthenticated (session_run storage acts) \<longrightarrow> protected_path pathname
      \<longrightarrow> App (session_run storage acts) pathname = Navigate ''/login'')
   \<and> (isAuthenticated (session_run storage acts) \<longrightarrow> normalize_path pathname = ''/login''
      \<longrightarrow> App (session_run storage acts) pathname = Navigate ''/dashboard'')
   \<and> list_all protected_path
        [''/'', ''/dashboard'', ''/employees'', ''/promotions'', ''/payslips'', ''/settings'']"
proof -
  have "list_all protected_path
          [''/'', ''/dashboard'', ''/employees'', ''/promotions'', ''/payslips'', ''/settings'']"
    by (simp add: protected_path_def normalize_path_def lower_def child_route_def)
  with guard_when_loaded [OF loaded_run, of storage acts pathname] show ?thesis
    by blast
qed

theorem routes_guard_witness:
  "\<not> isAuthenticated (session_run signed_in [Logout_click])
   \<and> protected_path ''/payslips''
   \<and> App (session_run signed_in [Logout_click]) ''/payslips'' = Navigate ''/login''
   \<and> \<not> isAuthenticated (session_run Map.empty [])
   \<and> protected_path ''/Employees/''
   \<and> App (session_run Map.empty []) ''/Employees/'' = Navigate ''/login''
   \<and> isAuthenticated (session_run Map.empty [Login_success ''t1'' ''admin''])
   \<and> normalize_path ''/login'' = ''/login''
   \<and> App (session_run Map.empty [Login_success ''t1'' ''admin'']) ''/login''
       = Navigate ''/dashboard''"
  using routes_guard [of signed_in "[Logout_click]" "''/payslips''"]
    routes_guard [of Map.empty "[]" "''/Employees/''"]
    routes_guard [of Map.empty "[Login_success ''t1'' ''admin'']" "''/login''"]
  by (simp add: session_run_def handleLogout_def handleLogin_def App_useEffect_def
      App_initial_def getItem_def item_value_def signed_in_def protected_path_def
      child_route_def normalize_path_def lower_def)

subsection \<open>The promotion form's employee selector\<close>

lemma find_first:
  "\<forall>x \<in> set xs. \<not> P x \<Longrightarrow> P e \<Longrightarrow> find P (xs @ e # ys) = Some e"
  by (induction xs) simp_all

text \<open>
  Claim C10. Selecting an id that no employee of the fetched list has leaves the whole
  state, the draft included, as it was. Selecting an id that an employee has sets the
  draft's \<open>employee_id\<close> to it and copies the designation and the salary components of
  the first such employee; the promotion date is kept.
\<close>

theorem handleEmployeeChange_frame:
  "((\<forall>e \<in> set (Promotions_employees s). e_id e \<noteq> Some employeeId)
      \<longrightarrow> Promotions_handleEmployeeChange employeeId s = s)
   \<and> (Promotions_employees s = before @ e # after
        \<and> (\<forall>x \<in> set before. e_id x \<noteq> Some employeeId) \<and> e_id e = Some employeeId
      \<longrightarrow> Promotions_handleEmployeeChange employeeId s =
            s\<lparr>Promotions_formData :=
                \<lparr>pf_employee_id = employeeId,
                 pf_new_designation = e_designation e,
                 pf_promotion_date = pf_promotion_date (Promotions_formData s),
                 pf_new_salary_components = e_salary_components e\<rparr>\<rparr>)"
proof -
  have none: "Promotions_handleEmployeeChange employeeId s = s"
    if "\<forall>e \<in> set (Promotions_employees s). e_id e \<noteq> Some employeeId"
  proof -
    from that have "find (\<lambda>e. e_id e = Some employeeId) (Promotions_employees s) = None"
      by (simp add: find_None_iff)
    then show ?thesis by (simp add: Promotions_handleEmployeeChange_def)
  qed
  have some: "Promotions_handleEmployeeChange employeeId s =
            s\<lparr>Promotions_formData :=
                \<lparr>pf_employee_id = employeeId,
                 pf_new_designation = e_designation e,
                 pf_promotion_date = pf_promotion_date (Promotions_formData s),
                 pf_new_salary_components = e_salary_components e\<rparr>\<rparr>"
    if "Promotions_employees s = before @ e # after"
      and "\<forall>x \<in> set before. e_id x \<noteq> Some employeeId" and "e_id e = Some employeeId"
  proof -
    from that have "find (\<lambda>e. e_id e = Some employeeId) (Promotions_employees s) = Some e"
      by (simp add: find_first)
    then show ?thesis by (simp add: Promotions_handleEmployeeChange_def)
  qed
  from none some show ?thesis by blast
qed

theorem handleEmployeeChange_frame_witness:
  "list_all (\<lambda>e. e_id e \<noteq> Some ''e9'') (Promotions_employees Promotions_sample)
   \<and> Promotions_handleEmployeeChange ''e9'' Promotions_sample = Promotions_sample
   \<and> Promotions_employees Promotions_sample = [alice] @ bob # []
   \<and> list_all (\<lambda>x. e_id x \<noteq> Some ''e2'') [alice]
   \<and> e_id bob = Some ''e2''
   \<and> Promotions_formData (Promotions_handleEmployeeChange ''e2'' Promotions_sample) =
       \<lparr>pf_employee_id = ''e2'', pf_new_designation = ''Analyst'',
        pf_promotion_date = ''2025-04-01'',
        pf_new_salary_components =
          [(''basic'', JNum (Fin 30000)), (''house_rent_allowance'', JNum (Fin 12000)),
           (''transport_allowance'', JNum (Fin 1600)), (''fixed_allowance'', JNum (Fin 2000)),
           (''professional_tax'', JNum (Fin 200))]\<rparr>"
  using handleEmployeeChange_frame [of Promotions_sample "''e9''" "[alice]" bob "[]" ]
    handleEmployeeChange_frame [of Promotions_sample "''e2''" "[alice]" bob "[]"]
  by (simp add: Promotions_sample_def alice_def bob_def)

subsection \<open>Loading a list\<close>

lemma fetchEmployees_ok:
  assumes "get_employees env
             (requests (log s) @ [get_request env ''/employees'' (getItem s ''token'')]) = Inr es"
  shows "fetchEmployees env s =
           s\<lparr>log := log s @ [Request (get_request env ''/employees'' (getItem s ''token''))],
             Employees_employees := es, Employees_loading := False\<rparr>"
  using assms by (simp add: fetchEmployees_def run_simps)

lemma fetchEmployees_failed:
  assumes "isl (get_employees env
             (requests (log s) @ [get_request env ''/employees'' (getItem s ''token'')]))"
  shows "fetchEmployees env s =
           s\<lparr>log := log s @ [Request (get_request env ''/employees'' (getItem s ''token'')),
                             Toast_error (JStr ''Failed to fetch employees'')],
             Employees_loading := False\<rparr>"
  using assms by (auto simp add: fetchEmployees_def run_simps isl_def)

lemma Promotions_fetchData_ok:
  assumes "get_promotions env (requests (log s) @
             [get_request env ''/promotions'' (getItem s ''token'')]) = Inr ps"
    and "get_employees env (requests (log s) @
             [get_request env ''/promotions'' (getItem s ''token''),
              get_request env ''/employees'' (getItem s ''token'')]) = Inr es"
  shows "Promotions_fetchData env s =
           s\<lparr>log := log s @
                 [Request (get_request env ''/promotions'' (getItem s ''token'')),
                  Request (get_request env ''/employees'' (getItem s ''token''))],
             Promotions_promotions := ps, Promotions_employees := es,
             Promotions_loading := False\<rparr>"
  using assms by (simp add: Promotions_fetchData_def run_simps)

lemma Promotions_fetchData_failed:
  assumes "isl (get_promotions env (requests (log s) @
             [get_request env ''/promotions'' (getItem s ''token'')]))
         \<or> isl (get_employees env (requests (log s) @
             [get_request env ''/promotions'' (getItem s ''token''),
              get_request env ''/employees'' (getItem s ''token'')]))"
  shows "Promotions_fetchData env s =
           s\<lparr>log := log s @
                 [Request (get_request env ''/promotions'' (getItem s ''token'')),
                  Request (get_request env ''/employees'' (getItem s ''token'')),
                  Toast_error (JStr ''Failed to fetch data'')],
             Promotions_loading := False\<rparr>"
  using assms
  by (auto simp add: Promotions_fetchData_def run_simps isl_def split: sum.splits)

lemma Payslips_fetchData_ok:
  assumes "get_payslips env (requests (log s) @
             [get_request env ''/payslips'' (getItem s ''token'')]) = Inr ps"
    and "get_employees env (requests (log s) @
             [get_request env ''/payslips'' (getItem s ''token''),
              get_request env ''/employees'' (getItem s ''token'')]) = Inr es"
  shows "Payslips_fetchData env s =
           s\<lparr>log := log s @
                 [Request (get_request env ''/payslips'' (getItem s ''token'')),
                  Request (get_request env ''/employees'' (getItem s ''token''))],
             Payslips_payslips := ps, Payslips_employees := es, Payslips_loading := False\<rparr>"
  using assms by (simp add: Payslips_fetchData_def run_simps)

lemma Payslips_fetchData_failed:
  assumes "isl (get_payslips env (requests (log s) @
             [get_request env ''/payslips'' (getItem s ''token'')]))
         \<or> isl (get_employees env (requests (log s) @
             [get_request env ''/payslips'' (getItem s ''token''),
              get_request env ''/employees'' (getItem s ''token'')]))"
  shows "Payslips_fetchData env s =
           s\<lparr>log := log s @
                 [Request (get_request env ''/payslips'' (getItem s ''token'')),
                  Request (get_request env ''/employees'' (getItem s ''token'')),
                  Toast_error (JStr ''Failed to fetch data'')],
             Payslips_loading := False\<rparr>"
  using assms
  by (auto simp add: Payslips_fetchData_def run_simps isl_def split: sum.splits)

lemma fetchStats_ok:
  assumes "get_stats env
             (requests (log s) @ [get_request env ''/dashboard/stats'' (getItem s ''token'')]) = Inr st"
  shows "fetchStats env s =
           s\<lparr>log := log s @ [Request (get_request env ''/dashboard/stats'' (getItem s ''token''))],
             Dashboard_stats := st, Dashboard_loading := False\<rparr>"
  using assms by (simp add: fetchStats_def run_simps)

lemma fetchStats_failed:
  assumes "isl (get_stats env
             (requests (log s) @ [get_request env ''/dashboard/stats'' (getItem s ''token'')]))"
  shows "fetchStats env s =
           s\<lparr>log := log s @ [Request (get_request env ''/dashboard/stats'' (getItem s ''token'')),
                             Console_error ''Error fetching stats:''],
             Dashboard_loading := False\<rparr>"
  using assms by (auto simp add: fetchStats_def run_simps isl_def)

text \<open>What a load leaves alone, whatever the backend answers.\<close>

lemma fetchEmployees_frame:
  "requests (log (fetchEmployees env s)) =
     requests (log s) @ [get_request env ''/employees'' (getItem s ''token'')]"
  "Employees_dialogOpen (fetchEmployees env s) = Employees_dialogOpen s"
  "Employees_formData (fetchEmployees env s) = Employees_formData s"
  "Employees_editingEmployee (fetchEmployees env s) = Employees_editingEmployee s"
  by (simp_all add: fetchEmployees_def run_simps split: sum.splits)

lemma Promotions_fetchData_frame:
  "requests (log (Promotions_fetchData env s)) =
     requests (log s) @ [get_request env ''/promotions'' (getItem s ''token''),
                         get_request env ''/employees'' (getItem s ''token'')]"
  "Promotions_dialogOpen (Promotions_fetchData env s) = Promotions_dialogOpen s"
  "Promotions_formData (Promotions_fetchData env s) = Promotions_formData s"
  by (simp_all add: Promotions_fetchData_def run_simps split: sum.splits)

lemma Payslips_fetchData_frame:
  "requests (log (Payslips_fetchData env s)) =
     requests (log s) @ [get_request env ''/payslips'' (getItem s ''token''),
                         get_request env ''/employees'' (getItem s ''token'')]"
  "Payslips_dialogOpen (Payslips_fetchData env s) = Payslips_dialogOpen s"
  "Payslips_formData (Payslips_fetchData env s) = Payslips_formData s"
  "Payslips_editingPayslip (Payslips_fetchData env s) = Payslips_editingPayslip s"
  "Payslips_editFormData (Payslips_fetchData env s) = Payslips_editFormData s"
  by (simp_all add: Payslips_fetchData_def run_simps split: sum.splits)

text \<open>
  Claim C6, as stated, fails for the dashboard, which section 4.3 of the specification
  lists among the list views: when its fetch fails, \<open>fetchStats\<close> writes a console
  trace and shows no notification.
\<close>

theorem Dashboard_failure_not_notified:
  "get_stats backend_down
     (requests (log Dashboard_sample) @
      [get_request backend_down ''/dashboard/stats'' (getItem Dashboard_sample ''token'')])
     = Inl rejection
   \<and> log (fetchStats backend_down Dashboard_sample) =
       [Request \<lparr>http_method = GET, url = ''http://localhost:8001/api/dashboard/stats'',
                 authorization = Some ''Bearer t0'', body = JUndefined\<rparr>,
        Console_error ''Error fetching stats:'']"
  by (simp add: fetchStats_def run_simps request_defs backend_down_def Dashboard_sample_def
      signed_in_def)

text \<open>
  Claim C6, amended. For the employees, promotions and payslips views: when every
  fetch of the load succeeds, the items are replaced by the responses and the loading
  flag is cleared; when a fetch fails, an error notification is shown, the loading flag
  is cleared and nothing else changes, so the items keep their previous value. The
  dashboard's load replaces the statistics and clears the loading flag on success; on
  failure it clears the loading flag, keeps the statistics and writes a console trace
  instead of a notification.
\<close>

theorem load_outcome:
  "(get_employees env
      (requests (log se) @ [get_request env ''/employees'' (getItem se ''token'')]) = Inr es
    \<longrightarrow> fetchEmployees env se =
          se\<lparr>log := log se @ [Request (get_request env ''/employees'' (getItem se ''token''))],
             Employees_employees := es, Employees_loading := False\<rparr>)
   \<and> (isl (get_employees env
         (requests (log se) @ [get_request env ''/employees'' (getItem se ''token'')]))
    \<longrightarrow> fetchEmployees env se =
          se\<lparr>log := log se @ [Request (get_request env ''/employees'' (getItem se ''token'')),
                               Toast_error (JStr ''Failed to fetch employees'')],
             Employees_loading := False\<rparr>)
   \<and> (get_promotions env (requests (log sr) @
         [get_request env ''/promotions'' (getItem sr ''token'')]) = Inr rs
      \<and> get_employees env (requests (log sr) @
         [get_request env ''/promotions'' (getItem sr ''token''),
          get_request env ''/employees'' (getItem sr ''token'')]) = Inr es
    \<longrightarrow> Promotions_fetchData env sr =
          sr\<lparr>log := log sr @
                 [Request (get_request env ''/promotions'' (getItem sr ''token'')),
                  Request (get_request env ''/employees'' (getItem sr ''token''))],
             Promotions_promotions := rs, Promotions_employees := es,
             Promotions_loading := False\<rparr>)
   \<and> (isl (get_promotions env (requests (log sr) @
         [get_request env ''/promotions'' (getItem sr ''token'')]))
      \<or> isl (get_employees env (requests (log sr) @
         [get_request env ''/promotions'' (getItem sr ''token''),
          get_request env ''/employees'' (getItem sr ''token'')]))
    \<longrightarrow> Promotions_fetchData env sr =
          sr\<lparr>log := log sr @
                 [Request (get_request env ''/promotions'' (getItem sr ''token'')),
                  Request (get_request env ''/employees'' (getItem sr ''token'')),
                  Toast_error (JStr ''Failed to fetch data'')],
             Promotions_loading := False\<rparr>)
   \<and> (get_payslips env (requests (log sp) @
         [get_request env ''/payslips'' (getItem sp ''token'')]) = Inr ps
      \<and> get_employees env (requests (log sp) @
         [get_request env ''/payslips'' (getItem sp ''token''),
          get_request env ''/employees'' (getItem sp ''token'')]) = Inr es
    \<longrightarrow> Payslips_fetchData env sp =
          sp\<lparr>log := log sp @
                 [Request (get_request env ''/payslips'' (getItem sp ''token'')),
                  Request (get_request env ''/employees'' (getItem sp ''token''))],
             Payslips_payslips := ps, Payslips_employees := es, Payslips_loading := False\<rparr>)
   \<and> (isl (get_payslips env (requests (log sp) @
         [get_request env ''/payslips'' (getItem sp ''token'')]))
      \<or> isl (get_employees env (requests (log sp) @
         [get_request env ''/payslips'' (getItem sp ''token''),
          get_request env ''/employees'' (getItem sp ''token'')]))
    \<longrightarrow> Payslips_fetchData env sp =
          sp\<lparr>log := log sp @
                 [Request (get_request env ''/payslips'' (getItem sp ''token'')),
                  Request (get_request env ''/employees'' (getItem sp ''token'')),
                  Toast_error (JStr ''Failed to fetch data'')],
             Payslips_loading := False\<rparr>)
   \<and> (get_stats env
        (requests (log sd) @ [get_request env ''/dashboard/stats'' (getItem sd ''token'')]) = Inr st
    \<longrightarrow> fetchStats env sd =
          sd\<lparr>log := log sd @ [Request (get_request env ''/dashboard/stats'' (getItem sd ''token''))],
             Dashboard_stats := st, Dashboard_loading := False\<rparr>)
   \<and> (isl (get_stats env
        (requests (log sd) @ [get_request env ''/dashboard/stats'' (getItem sd ''token'')]))
    \<longrightarrow> fetchStats env sd =
          sd\<lparr>log := log sd @ [Request (get_request env ''/dashboard/stats'' (getItem sd ''token'')),
                               Console_error ''Error fetching stats:''],
             Dashboard_loading := False\<rparr>)"
  using fetchEmployees_ok [of env se es] fetchEmployees_failed [of env se]
    Promotions_fetchData_ok [of env sr rs es] Promotions_fetchData_failed [of env sr]
    Payslips_fetchData_ok [of env sp ps es] Payslips_fetchData_failed [of env sp]
    fetchStats_ok [of env sd st] fetchStats_failed [of env sd]
  by blast

theorem load_outcome_witness:
  "get_employees backend_up
     (requests (log Employees_sample) @
      [get_request backend_up ''/employees'' (getItem Employees_sample ''token'')])
     = Inr [alice, bob]
   \<and> Employees_employees Employees_sample = [alice]
   \<and> Employees_employees (fetchEmployees backend_up Employees_sample) = [alice, bob]
   \<and> \<not> Employees_loading (fetchEmployees backend_up Employees_sample)
   \<and> isl (get_employees backend_down
       (requests (log Employees_sample) @
        [get_request backend_down ''/employees'' (getItem Employees_sample ''token'')]))
   \<and> Employees_employees (fetchEmployees backend_down Employees_sample) = [alice]
   \<and> \<not> Employees_loading (fetchEmployees backend_down Employees_sample)
   \<and> log (fetchEmployees backend_down Employees_sample) =
       [Request \<lparr>http_method = GET, url = ''http://localhost:8001/api/employees'',
                 authorization = Some ''Bearer t0'', body = JUndefined\<rparr>,
        Toast_error (JStr ''Failed to fetch employees'')]
   \<and> Promotions_promotions (Promotions_fetchData backend_up Promotions_sample) =
       [JObj [(''id'', JStr ''pr1'')]]
   \<and> Promotions_promotions (Promotions_fetchData backend_down Promotions_sample) = []
   \<and> Promotions_employees (Promotions_fetchData backend_down Promotions_sample) = [alice, bob]
   \<and> Payslips_payslips (Payslips_fetchData backend_up (Payslips_sample (FNum 30) (FNum 0))) =
       [march_payslip, april_payslip]
   \<and> Payslips_employees (Payslips_fetchData backend_up (Payslips_sample (FNum 30) (FNum 0))) =
       [alice, bob]
   \<and> Payslips_payslips (Payslips_fetchData backend_down (Payslips_sample (FNum 30) (FNum 0))) =
       [march_payslip]
   \<and> Payslips_employees (Payslips_fetchData backend_down (Payslips_sample (FNum 30) (FNum 0))) =
       [alice]
   \<and> log (Payslips_fetchData backend_down (Payslips_sample (FNum 30) (FNum 0))) =
       [Request \<lparr>http_method = GET, url = ''http://localhost:8001/api/payslips'',
                 authorization = Some ''Bearer t0'', body = JUndefined\<rparr>,
        Request \<lparr>http_method = GET, url = ''http://localhost:8001/api/employees'',
                 authorization = Some ''Bearer t0'', body = JUndefined\<rparr>,
        Toast_error (JStr ''Failed to fetch data'')]
   \<and> Dashboard_stats (fetchStats backend_up Dashboard_sample) = april_stats
   \<and> Dashboard_stats (fetchStats backend_down Dashboard_sample) = zero_stats
   \<and> \<not> Dashboard_loading (fetchStats backend_down Dashboard_sample)"
  using load_outcome [where env = backend_up and se = Employees_sample and es = "[alice, bob]"
      and sr = Promotions_sample and rs = "[JObj [(''id'', JStr ''pr1'')]]"
      and sp = "Payslips_sample (FNum 30) (FNum 0)" and ps = "[march_payslip, april_payslip]"
      and sd = Dashboard_sample and st = april_stats]
    load_outcome [where env = backend_down and se = Employees_sample
      and sr = Promotions_sample and sp = "Payslips_sample (FNum 30) (FNum 0)"
      and sd = Dashboard_sample]
  by (simp add: backend_up_def backend_down_def Employees_sample_def Promotions_sample_def
      Payslips_sample_def Dashboard_sample_def signed_in_def request_defs getItem_def)

subsection \<open>Submitting a create form\<close>

lemma Employees_create_ok:
  assumes "Employees_editingEmployee s = None"
    and "mutate env (requests (log s) @
           [post_request env ''/employees'' (employee_object (Employees_formData s))
              (getItem s ''token'')]) = Inr ()"
  shows "requests (log (Employees_handleSubmit env s)) = requests (log s) @
           [post_request env ''/employees'' (employee_object (Employees_formData s))
              (getItem s ''token''),
            get_request env ''/employees'' (getItem s ''token'')]"
    and "\<not> Employees_dialogOpen (Employees_handleSubmit env s)"
    and "Employees_formData (Employees_handleSubmit env s) = Employees_reset_formData"
  using assms
  by (simp_all add: Employees_handleSubmit_def fetchEmployees_frame Employees_resetForm_def
      run_simps)

lemma Employees_create_failed:
  assumes "Employees_editingEmployee s = None"
    and "mutate env (requests (log s) @
           [post_request env ''/employees'' (employee_object (Employees_formData s))
              (getItem s ''token'')]) = Inl err"
  shows "Employees_handleSubmit env s =
           s\<lparr>log := log s @
                 [Request (post_request env ''/employees'' (employee_object (Employees_formData s))
                            (getItem s ''token'')),
                  Toast_error (if truthy (error_detail err) then error_detail err
                               else JStr ''Operation failed'')]\<rparr>"
  using assms by (simp add: Employees_handleSubmit_def run_simps js_or_def)

lemma Promotions_create_ok:
  assumes "mutate env (requests (log s) @
           [post_request env ''/promotions'' (promotion_form_object (Promotions_formData s))
              (getItem s ''token'')]) = Inr ()"
  shows "requests (log (Promotions_handleSubmit env s)) = requests (log s) @
           [post_request env ''/promotions'' (promotion_form_object (Promotions_formData s))
              (getItem s ''token''),
            get_request env ''/promotions'' (getItem s ''token''),
            get_request env ''/employees'' (getItem s ''token'')]"
    and "\<not> Promotions_dialogOpen (Promotions_handleSubmit env s)"
    and "Promotions_formData (Promotions_handleSubmit env s) = Promotions_initial_formData"
  using assms
  by (simp_all add: Promotions_handleSubmit_def Promotions_fetchData_frame
      Promotions_resetForm_def Promotions_initial_formData_def run_simps)

lemma Promotions_create_failed:
  assumes "mutate env (requests (log s) @
           [post_request env ''/promotions'' (promotion_form_object (Promotions_formData s))
              (getItem s ''token'')]) = Inl err"
  shows "Promotions_handleSubmit env s =
           s\<lparr>log := log s @
                 [Request (post_request env ''/promotions''
                            (promotion_form_object (Promotions_formData s)) (getItem s ''token'')),
                  Toast_error (if truthy (error_detail err) then error_detail err
                               else JStr ''Failed to create promotion'')]\<rparr>"
  using assms by (simp add: Promotions_handleSubmit_def run_simps js_or_def)

lemma Payslips_create_ok:
  assumes "mutate env (requests (log s) @
           [post_request env ''/payslips/generate'' (generate_payload (Payslips_formData s))
              (getItem s ''token'')]) = Inr ()"
  shows "requests (log (Payslips_handleSubmit env s)) = requests (log s) @
           [post_request env ''/payslips/generate'' (generate_payload (Payslips_formData s))
              (getItem s ''token''),
            get_request env ''/payslips'' (getItem s ''token''),
            get_request env ''/employees'' (getItem s ''token'')]"
    and "\<not> Payslips_dialogOpen (Payslips_handleSubmit env s)"
    and "Payslips_formData (Payslips_handleSubmit env s) = Payslips_initial_formData env"
  using assms
  by (simp_all add: Payslips_handleSubmit_def Payslips_fetchData_frame Payslips_resetForm_def
      Payslips_initial_formData_def run_simps)

lemma Payslips_create_failed:
  assumes "mutate env (requests (log s) @
           [post_request env ''/payslips/generate'' (generate_payload (Payslips_formData s))
              (getItem s ''token'')]) = Inl err"
  shows "Payslips_handleSubmit env s =
           s\<lparr>log := log s @
                 [Request (post_request env ''/payslips/generate''
                            (generate_payload (Payslips_formData s)) (getItem s ''token'')),
                  Toast_error (if truthy (error_detail err) then error_detail err
                               else JStr ''Failed to generate payslip'')]\<rparr>"
  using assms by (simp add: Payslips_handleSubmit_def run_simps js_or_def)

text \<open>
  The draft that \<open>resetForm\<close> assigns is the initial draft for the promotion and the
  payslip form. For the employee form it is the initial draft with one more salary
  component, \<open>home_collection_visit\<close>, at 0.
\<close>

lemma Employees_reset_vs_initial:
  "Employees_reset_formData \<noteq> Employees_initial_formData"
  "Employees_reset_formData
     \<lparr>e_salary_components :=
        filter (\<lambda>(k, v). k \<noteq> ''home_collection_visit'')
          (e_salary_components Employees_reset_formData)\<rparr>
   = Employees_initial_formData"
  "map_of (e_salary_components Employees_reset_formData) ''home_collection_visit''
   = Some (JNum (Fin 0))"
  by (simp_all add: Employees_reset_formData_def Employees_initial_formData_def)

text \<open>
  What a create form does on submit. Submitting the employee form with no editing
  target, the promotion form or the payslip form issues one \<open>POST\<close> with the draft.
  When the backend accepts it, the handler goes on to reload the view (one \<open>GET\<close> for
  each list the view holds) and issues no other request, closes the dialog and sets the
  draft to the object \<open>resetForm\<close> assigns. That object is the initial draft for a
  promotion and a payslip; for an employee it is \<open>Employees_reset_formData\<close>. When
  the backend rejects the \<open>POST\<close>, the only change is the log: the request and an
  error notification with the \<open>detail\<close> of the response, or with the form's fixed
  message when the response has no \<open>detail\<close> or an empty one. So the dialog stays as
  it was, the draft is kept and nothing is reloaded.
\<close>

lemma create_submit_outcome:
  "(Employees_editingEmployee se = None
      \<and> mutate env (requests (log se) @
           [post_request env ''/employees'' (employee_object (Employees_formData se))
              (getItem se ''token'')]) = Inr ()
    \<longrightarrow> requests (log (Employees_handleSubmit env se)) = requests (log se) @
           [post_request env ''/employees'' (employee_object (Employees_formData se))
              (getItem se ''token''),
            get_request env ''/employees'' (getItem se ''token'')]
        \<and> \<not> Employees_dialogOpen (Employees_handleSubmit env se)
        \<and> Employees_formData (Employees_handleSubmit env se) = Employees_reset_formData)
   \<and> (Employees_editingEmployee se = None
      \<and> mutate env (requests (log se) @
           [post_request env ''/employees'' (employee_object (Employees_formData se))
              (getItem se ''token'')]) = Inl err
    \<longrightarrow> Employees_handleSubmit env se =
          se\<lparr>log := log se @
                 [Request (post_request env ''/employees''
                            (employee_object (Employees_formData se)) (getItem se ''token'')),
                  Toast_error (if truthy (error_detail err) then error_detail err
                               else JStr ''Operation failed'')]\<rparr>)
   \<and> (mutate env (requests (log sr) @
           [post_request env ''/promotions'' (promotion_form_object (Promotions_formData sr))
              (getItem sr ''token'')]) = Inr ()
    \<longrightarrow> requests (log (Promotions_handleSubmit env sr)) = requests (log sr) @
           [post_request env ''/promotions'' (promotion_form_object (Promotions_formData sr))
              (getItem sr ''token''),
            get_request env ''/promotions'' (getItem sr ''token''),
            get_request env ''/employees'' (getItem sr ''token'')]
        \<and> \<not> Promotions_dialogOpen (Promotions_handleSubmit env sr)
        \<and> Promotions_formData (Promotions_handleSubmit env sr) = Promotions_initial_formData)
   \<and> (mutate env (requests (log sr) @
           [post_request env ''/promotions'' (promotion_form_object (Promotions_formData sr))
              (getItem sr ''token'')]) = Inl err
    \<longrightarrow> Promotions_handleSubmit env sr =
          sr\<lparr>log := log sr @
                 [Request (post_request env ''/promotions''
                            (promotion_form_object (Promotions_formData sr)) (getItem sr ''token'')),
                  Toast_error (if truthy (error_detail err) then error_detail err
                               else JStr ''Failed to create promotion'')]\<rparr>)
   \<and> (mutate env (requests (log sp) @
           [post_request env ''/payslips/generate'' (generate_payload (Payslips_formData sp))
              (getItem sp ''token'')]) = Inr ()
    \<longrightarrow> requests (log (Payslips_handleSubmit env sp)) = requests (log sp) @
           [post_request env ''/payslips/generate'' (generate_payload (Payslips_formData sp))
              (getItem sp ''token''),
            get_request env ''/payslips'' (getItem sp ''token''),
            get_request env ''/employees'' (getItem sp ''token'')]
        \<and> \<not> Payslips_dialogOpen (Payslips_handleSubmit env sp)
        \<and> Payslips_formData (Payslips_handleSubmit env sp) = Payslips_initial_formData env)
   \<and> (mutate env (requests (log sp) @
           [post_request env ''/payslips/generate'' (generate_payload (Payslips_formData sp))
              (getItem sp ''token'')]) = Inl err
    \<longrightarrow> Payslips_handleSubmit env sp =
          sp\<lparr>log := log sp @
                 [Request (post_request env ''/payslips/generate''
                            (generate_payload (Payslips_formData sp)) (getItem sp ''token'')),
                  Toast_error (if truthy (error_detail err) then error_detail err
                               else JStr ''Failed to generate payslip'')]\<rparr>)"
  using Employees_create_ok [of se env] Employees_create_failed [of se env err]
    Promotions_create_ok [of env sr] Promotions_create_failed [of env sr err]
    Payslips_create_ok [of env sp] Payslips_create_failed [of env sp err]
  by blast

lemma create_submit_outcome_example:
  "Employees_editingEmployee Employees_sample = None
   \<and> map http_method (requests (log (Employees_handleSubmit backend_up Employees_sample)))
       = [POST, GET]
   \<and> map url (requests (log (Employees_handleSubmit backend_up Employees_sample)))
       = [''http://localhost:8001/api/employees'', ''http://localhost:8001/api/employees'']
   \<and> \<not> Employees_dialogOpen (Employees_handleSubmit backend_up Employees_sample)
   \<and> e_name (Employees_formData (Employees_handleSubmit backend_up Employees_sample)) = ''''
   \<and> Employees_handleSubmit backend_down Employees_sample =
       Employees_sample\<lparr>log :=
         [Request (post_request backend_down ''/employees''
            (employee_object (Employees_formData Employees_sample)) (Some ''t0'')),
          Toast_error (JStr ''Request rejected'')]\<rparr>
   \<and> Employees_handleSubmit backend_offline Employees_sample =
       Employees_sample\<lparr>log :=
         [Request (post_request backend_offline ''/employees''
            (employee_object (Employees_formData Employees_sample)) (Some ''t0'')),
          Toast_error (JStr ''Operation failed'')]\<rparr>
   \<and> map url (requests (log (Promotions_handleSubmit backend_up Promotions_sample)))
       = [''http://localhost:8001/api/promotions'', ''http://localhost:8001/api/promotions'',
          ''http://localhost:8001/api/employees'']
   \<and> \<not> Promotions_dialogOpen (Promotions_handleSubmit backend_up Promotions_sample)
   \<and> pf_new_designation (Promotions_formData (Promotions_handleSubmit backend_up Promotions_sample))
       = ''''
   \<and> Promotions_handleSubmit backend_down Promotions_sample =
       Promotions_sample\<lparr>log :=
         [Request (post_request backend_down ''/promotions''
            (promotion_form_object (Promotions_formData Promotions_sample)) (Some ''t0'')),
          Toast_error (JStr ''Request rejected'')]\<rparr>
   \<and> map url (requests (log (Payslips_handleSubmit backend_up (Payslips_sample (FStr ''26'') (FStr ''4'')))))
       = [''http://localhost:8001/api/payslips/generate'', ''http://localhost:8001/api/payslips'',
          ''http://localhost:8001/api/employees'']
   \<and> \<not> Payslips_dialogOpen (Payslips_handleSubmit backend_up (Payslips_sample (FStr ''26'') (FStr ''4'')))
   \<and> f_paid_days (Payslips_formData
         (Payslips_handleSubmit backend_up (Payslips_sample (FStr ''26'') (FStr ''4'')))) = FNum 30
   \<and> Payslips_handleSubmit backend_offline (Payslips_sample (FStr ''26'') (FStr ''4'')) =
       (Payslips_sample (FStr ''26'') (FStr ''4''))\<lparr>log :=
         [Request (post_request backend_offline ''/payslips/generate''
            (generate_payload (Payslips_formData (Payslips_sample (FStr ''26'') (FStr ''4''))))
            (Some ''t0'')),
          Toast_error (JStr ''Failed to generate payslip'')]\<rparr>"
  using create_submit_outcome [where env = backend_up and se = Employees_sample
      and sr = Promotions_sample and sp = "Payslips_sample (FStr ''26'') (FStr ''4'')"]
    create_submit_outcome [where env = backend_down and se = Employees_sample
      and sr = Promotions_sample and sp = "Payslips_sample (FStr ''26'') (FStr ''4'')"
      and err = rejection]
    create_submit_outcome [where env = backend_offline and se = Employees_sample
      and sr = Promotions_sample and sp = "Payslips_sample (FStr ''26'') (FStr ''4'')"
      and err = Network_error]
  by (simp add: backend_up_def backend_down_def backend_offline_def rejection_def
      Employees_sample_def Promotions_sample_def Payslips_sample_def signed_in_def
      request_defs getItem_def get_prop_def Employees_reset_formData_def
      Promotions_initial_formData_def Payslips_initial_formData_def)

text \<open>
  Claim C5 holds in all it says of requests, dialog and error message, and of the
  draft of the promotion and payslip forms (\<open>create_submit_outcome\<close>), but not in
  the reset of the employee draft. After a successful create, \<open>resetForm\<close> of the
  employees view leaves a draft that is not the default draft of \<open>useState\<close>: its
  salary components have the key \<open>home_collection_visit\<close>, which the default draft
  lacks and no input of the form edits, and the next create sends it.
\<close>

theorem employee_draft_not_reset_to_default:
  "Employees_editingEmployee Employees_sample = None
   \<and> map http_method (requests (log (Employees_handleSubmit backend_up Employees_sample)))
       = [POST, GET]
   \<and> Employees_formData (Employees_handleSubmit backend_up Employees_sample)
       \<noteq> Employees_initial_formData
   \<and> e_salary_components (Employees_formData (Employees_handleSubmit backend_up Employees_sample)) =
       [(''basic'', JNum (Fin 0)), (''house_rent_allowance'', JNum (Fin 0)),
        (''transport_allowance'', JNum (Fin 0)), (''fixed_allowance'', JNum (Fin 0)),
        (''home_collection_visit'', JNum (Fin 0)), (''professional_tax'', JNum (Fin 0))]
   \<and> e_salary_components Employees_initial_formData =
       [(''basic'', JNum (Fin 0)), (''house_rent_allowance'', JNum (Fin 0)),
        (''transport_allowance'', JNum (Fin 0)), (''fixed_allowance'', JNum (Fin 0)),
        (''professional_tax'', JNum (Fin 0))]
   \<and> map body (requests (log
         (Employees_handleSubmit backend_up (Employees_handleSubmit backend_up Employees_sample)))) =
       [JObj [(''employee_no'', JStr ''EMP002''), (''name'', JStr ''Bob''),
              (''designation'', JStr ''Analyst''), (''date_of_joining'', JStr ''2021-06-01''),
              (''work_location'', JStr ''Mumbai''), (''department'', JStr ''Finance''),
              (''bank_account_no'', JStr ''0034''),
              (''salary_components'', JObj
                 [(''basic'', JNum (Fin 30000)), (''house_rent_allowance'', JNum (Fin 12000)),
                  (''transport_allowance'', JNum (Fin 1600)), (''fixed_allowance'', JNum (Fin 2000)),
                  (''professional_tax'', JNum (Fin 200))])],
        JUndefined,
        JObj [(''employee_no'', JStr ''''), (''name'', JStr ''''), (''designation'', JStr ''''),
              (''date_of_joining'', JStr ''''), (''work_location'', JStr ''''),
              (''department'', JStr ''''), (''bank_account_no'', JStr ''''),
              (''salary_components'', JObj
                 [(''basic'', JNum (Fin 0)), (''house_rent_allowance'', JNum (Fin 0)),
                  (''transport_allowance'', JNum (Fin 0)), (''fixed_allowance'', JNum (Fin 0)),
                  (''home_collection_visit'', JNum (Fin 0)), (''professional_tax'', JNum (Fin 0))])],
        JUndefined]"
proof -
  have create: "Employees_editingEmployee Employees_sample = None"
    by (simp add: Employees_sample_def)
  have accepted: "mutate backend_up h = Inr ()" for h
    by (simp add: backend_up_def)
  note first = Employees_create_ok [OF create accepted]
  have again: "Employees_editingEmployee (Employees_handleSubmit backend_up Employees_sample) = None"
    by (simp add: Employees_handleSubmit_def fetchEmployees_frame Employees_resetForm_def
        run_simps accepted create)
  note second = Employees_create_ok [OF again accepted]
  have token: "getItem (Employees_handleSubmit backend_up Employees_sample) ''token''
      = getItem Employees_sample ''token''"
    by (simp add: Employees_handleSubmit_def fetchEmployees_def Employees_resetForm_def
        run_simps accepted create split: sum.splits)
  show ?thesis
    unfolding second(1) first(1) first(3) token
    by (simp add: create Employees_reset_formData_def Employees_initial_formData_def
        Employees_sample_def bob_def employee_object_def request_defs)
qed

subsection \<open>Reading numbers\<close>



text \<open>
  \<open>parseInt\<close> reads back an integer printed in decimal notation, also when
  something that is not a digit follows it.
\<close>

lemma is_dec_iff: "is_dec c \<longleftrightarrow> c \<in> set ''0123456789''"
  by (simp add: is_dec_def dec_digit_def)

lemma digit_char: "d < 10 \<Longrightarrow> dec_digit (''0123456789'' ! d) = Some d"
proof -
  assume "d < 10"
  then have "d \<in> {0, 1, 2, 3, 4, 5, 6, 7, 8, 9}" by auto
  then show ?thesis
    by (auto simp add: dec_digit_def)
qed

lemma radix_val_snoc:
  "radix_val R dig (xs @ [c]) = radix_val R dig xs * R + (case dig c of Some d \<Rightarrow> d | None \<Rightarrow> 0)"
  by (simp add: radix_val_def)

lemma show_nat_digits: "list_all is_dec (show_nat n)"
proof (induction n rule: show_nat.induct)
  case (1 n)
  have d: "is_dec (''0123456789'' ! k)" if "k < 10" for k
    using digit_char [OF that] by (simp add: is_dec_def)
  show ?case
  proof (cases "n < 10")
    case True
    then show ?thesis
      using d [of n] by (subst show_nat.simps) simp
  next
    case False
    then show ?thesis
      using 1 d [of "n mod 10"] by (subst show_nat.simps) simp
  qed
qed

lemma show_nat_not_Nil: "show_nat n \<noteq> []"
  by (subst show_nat.simps) simp

lemma show_nat_val: "radix_val 10 dec_digit (show_nat n) = n"
proof (induction n rule: show_nat.induct)
  case (1 n)
  show ?case
  proof (cases "n < 10")
    case True
    then show ?thesis
      by (subst show_nat.simps) (simp add: radix_val_def digit_char)
  next
    case False
    then have "radix_val 10 dec_digit (show_nat (n div 10)) = n div 10"
      using 1 by simp
    with False show ?thesis
      by (subst show_nat.simps) (simp add: radix_val_snoc digit_char)
  qed
qed

lemma is_dec_plain:
  assumes "is_dec c"
  shows "\<not> is_space c" "c \<noteq> CHR ''-''" "c \<noteq> CHR ''+''" "c \<noteq> CHR ''x''" "c \<noteq> CHR ''X''"
  using assms by (auto simp add: is_dec_iff is_space_def)

lemma takeWhile_digits:
  assumes "list_all is_dec ds"
    and "suffix = [] \<or> \<not> is_dec (hd suffix)"
  shows "takeWhile is_dec (ds @ suffix) = ds"
proof -
  from assms(2) have "takeWhile is_dec suffix = []"
    by (cases suffix) auto
  with assms(1) show ?thesis
    by (simp add: takeWhile_append2 list_all_iff)
qed

lemma not_hex_prefix:
  assumes "ds \<noteq> []" and "list_all is_dec ds"
    and "suffix = [] \<or> (hd suffix \<noteq> CHR ''x'' \<and> hd suffix \<noteq> CHR ''X'')"
  shows "take 2 (ds @ suffix) \<noteq> ''0x'' \<and> take 2 (ds @ suffix) \<noteq> ''0X''"
proof -
  from assms(1) obtain c cs where ds: "ds = c # cs" by (cases ds) auto
  show ?thesis
  proof (cases cs)
    case Nil
    with ds assms(3) show ?thesis
      by (cases suffix) auto
  next
    case (Cons d r)
    with ds assms(2) have "is_dec d" by simp
    then have "d \<noteq> CHR ''x''" "d \<noteq> CHR ''X''" by (rule is_dec_plain)+
    with ds Cons show ?thesis
      by auto
  qed
qed

lemma parseInt_str_digits:
  assumes "ds \<noteq> []" and "list_all is_dec ds"
    and "suffix = [] \<or> (\<not> is_dec (hd suffix) \<and> hd suffix \<noteq> CHR ''x'' \<and> hd suffix \<noteq> CHR ''X'')"
  shows "parseInt_str (ds @ suffix) = Fin (of_nat (radix_val 10 dec_digit ds))"
    and "parseInt_str (CHR ''-'' # ds @ suffix) = Fin (- of_nat (radix_val 10 dec_digit ds))"
proof -
  from assms(1) obtain c cs where ds: "ds = c # cs" by (cases ds) auto
  with assms(2) have c: "is_dec c" by simp
  note plain = is_dec_plain [OF c]
  from assms(3) have tw: "takeWhile is_dec (ds @ suffix) = ds"
    using takeWhile_digits [OF assms(2)] by blast
  from assms(3) have nh: "take 2 (ds @ suffix) \<noteq> ''0x''" "take 2 (ds @ suffix) \<noteq> ''0X''"
    using not_hex_prefix [OF assms(1,2), of suffix] by blast+
  have sp: "dropWhile is_space (ds @ suffix) = ds @ suffix"
    using ds plain(1) by simp
  have ss: "strip_sign (ds @ suffix) = (False, ds @ suffix)"
    using ds plain(2,3) by (simp add: strip_sign_def)
  show "parseInt_str (ds @ suffix) = Fin (of_nat (radix_val 10 dec_digit ds))"
    using assms(1) tw nh by (simp add: parseInt_str_def sp ss)
  have minus: "\<not> is_space CHR ''-''"
    by (simp add: is_space_def)
  have sm: "strip_sign (CHR ''-'' # ds @ suffix) = (True, ds @ suffix)"
    by (simp add: strip_sign_def)
  show "parseInt_str (CHR ''-'' # ds @ suffix) = Fin (- of_nat (radix_val 10 dec_digit ds))"
    using assms(1) tw nh minus by (simp add: parseInt_str_def sm)
qed

lemma parseInt_str_show_int:
  assumes "suffix = [] \<or> (\<not> is_dec (hd suffix) \<and> hd suffix \<noteq> CHR ''x'' \<and> hd suffix \<noteq> CHR ''X'')"
  shows "parseInt_str (show_int n @ suffix) = Fin (of_int n)"
proof (cases "n < 0")
  case True
  then show ?thesis
    using parseInt_str_digits(2) [OF show_nat_not_Nil show_nat_digits assms, of "nat (- n)"]
    by (simp add: show_int_def show_nat_val)
next
  case False
  then show ?thesis
    using parseInt_str_digits(1) [OF show_nat_not_Nil show_nat_digits assms, of "nat n"]
    by (simp add: show_int_def show_nat_val)
qed


lemma parseInt_FNum: "parseInt (FNum n) = Fin (of_int n)"
  using parseInt_str_show_int [of "[]" n] by (simp add: parseInt_def)

subsection \<open>Editing a payslip\<close>







subsection \<open>Downloading a payslip\<close>

lemma month_label_in_range:
  assumes "1 \<le> month" and "month \<le> 12"
  shows "month_label month =
           Inr ([''January'', ''February'', ''March'', ''April'', ''May'', ''June'', ''July'',
                 ''August'', ''September'', ''October'', ''November'', ''December'']
                ! nat (month - 1))"
proof -
  have names: "map snd months =
      [''January'', ''February'', ''March'', ''April'', ''May'', ''June'', ''July'',
       ''August'', ''September'', ''October'', ''November'', ''December'']"
    by (simp add: months_def)
  have len: "length months = 12"
    by (simp add: months_def)
  from assms len have "nat (month - 1) < length months" by simp
  then have "snd (months ! nat (month - 1)) = map snd months ! nat (month - 1)"
    by simp
  with assms len names show ?thesis
    by (simp add: month_label_def)
qed

text \<open>
  Claim C9. A download of the payslip with a given id, for a month from 1 to 12,
  issues one \<open>GET\<close> to \<open>/payslips/download/{id}\<close>. When the backend answers with the
  content, the handler saves it under the name
  \<open>payslip_{employee_no}_{month_name}_{year}.pdf\<close>, the month name being the English
  name of the month, and reports success. Whatever the answer, the handler changes
  nothing but the log: the payslips, the employees, the dialog, both drafts, the
  loading flag and the storage are as before. This holds for the handler of
  \<open>Payslips.js\<close> and for the one of the component's earlier revision.
\<close>

theorem handleDownload_saves_named_file:
  assumes "1 \<le> month" and "month \<le> 12"
  shows
  "(let g = get_request env (''/payslips/download/'' @ payslipId) (getItem s ''token'');
        month_name =
          [''January'', ''February'', ''March'', ''April'', ''May'', ''June'', ''July'',
           ''August'', ''September'', ''October'', ''November'', ''December'']
          ! nat (month - 1);
        file = ''payslip_'' @ employeeNo @ ''_'' @ month_name @ ''_'' @ show_int year @ ''.pdf'';
        s' = Payslips_handleDownload env payslipId employeeNo month year s;
        s0' = Payslips0_handleDownload env payslipId employeeNo month year s
    in (get_blob env (requests (log s) @ [g]) = Inr blob
          \<longrightarrow> log s' = log s @ [Request g, Save_file file blob,
                                 Toast_success ''Payslip downloaded successfully'']
            \<and> log s0' = log s @ [Request g, Save_file file blob,
                                  Toast_success ''Payslip downloaded successfully''])
     \<and> requests (log s') = requests (log s) @ [g]
     \<and> requests (log s0') = requests (log s) @ [g]
     \<and> s'\<lparr>log := log s\<rparr> = s
     \<and> s0'\<lparr>log := log s\<rparr> = s)"
proof -
  note label = month_label_in_range [OF assms]
  define g where "g = get_request env (''/payslips/download/'' @ payslipId) (getItem s ''token'')"
  have ok: "log (Payslips_handleDownload env payslipId employeeNo month year s) =
              log s @ [Request g,
                Save_file (download_name employeeNo
                  ([''January'', ''February'', ''March'', ''April'', ''May'', ''June'', ''July'',
                    ''August'', ''September'', ''October'', ''November'', ''December'']
                   ! nat (month - 1)) year) blob,
                Toast_success ''Payslip downloaded successfully'']"
       "log (Payslips0_handleDownload env payslipId employeeNo month year s) =
              log s @ [Request g,
                Save_file (download_name employeeNo
                  ([''January'', ''February'', ''March'', ''April'', ''May'', ''June'', ''July'',
                    ''August'', ''September'', ''October'', ''November'', ''December'']
                   ! nat (month - 1)) year) blob,
                Toast_success ''Payslip downloaded successfully'']"
    if "get_blob env (requests (log s) @ [g]) = Inr blob"
    using that label unfolding g_def
    by (simp_all add: Payslips_handleDownload_def Payslips0_handleDownload_def run_simps)
  have reqs: "requests (log (Payslips_handleDownload env payslipId employeeNo month year s)) =
                requests (log s) @ [g]"
             "requests (log (Payslips0_handleDownload env payslipId employeeNo month year s)) =
                requests (log s) @ [g]"
    using label unfolding g_def
    by (simp_all add: Payslips_handleDownload_def Payslips0_handleDownload_def run_simps
        split: sum.splits)
  have frame: "(Payslips_handleDownload env payslipId employeeNo month year s)\<lparr>log := log s\<rparr> = s"
              "(Payslips0_handleDownload env payslipId employeeNo month year s)\<lparr>log := log s\<rparr> = s"
    using label
    by (simp_all add: Payslips_handleDownload_def Payslips0_handleDownload_def run_simps
        split: sum.splits)
  from ok reqs frame show ?thesis
    unfolding Let_def g_def [symmetric] download_name_def by blast
qed

theorem handleDownload_saves_named_file_witness:
  "(1::int) \<le> 3 \<and> (3::int) \<le> 12
   \<and> get_blob backend_up
       [get_request backend_up ''/payslips/download/p1'' (Some ''t0'')] = Inr ''%PDF-1.4''
   \<and> log (Payslips_handleDownload backend_up ''p1'' ''EMP001'' 3 2025
            (Payslips_sample (FNum 30) (FNum 0))) =
       [Request \<lparr>http_method = GET, url = ''http://localhost:8001/api/payslips/download/p1'',
                 authorization = Some ''Bearer t0'', body = JUndefined\<rparr>,
        Save_file ''payslip_EMP001_March_2025.pdf'' ''%PDF-1.4'',
        Toast_success ''Payslip downloaded successfully'']
   \<and> log (Payslips0_handleDownload backend_up ''p1'' ''EMP001'' 3 2025
            (Payslips_sample (FNum 30) (FNum 0))) =
       [Request \<lparr>http_method = GET, url = ''http://localhost:8001/api/payslips/download/p1'',
                 authorization = Some ''Bearer t0'', body = JUndefined\<rparr>,
        Save_file ''payslip_EMP001_March_2025.pdf'' ''%PDF-1.4'',
        Toast_success ''Payslip downloaded successfully'']
   \<and> (Payslips_handleDownload backend_down ''p1'' ''EMP001'' 3 2025
        (Payslips_sample (FNum 30) (FNum 0)))\<lparr>log := []\<rparr> = Payslips_sample (FNum 30) (FNum 0)"
proof -
  have year: "show_int 2025 = ''2025''"
    by code_simp
  show ?thesis
    using handleDownload_saves_named_file
        [where month = 3 and env = backend_up and payslipId = "''p1''"
          and s = "Payslips_sample (FNum 30) (FNum 0)" and blob = "''%PDF-1.4''"
          and employeeNo = "''EMP001''" and year = 2025]
      handleDownload_saves_named_file
        [where month = 3 and env = backend_down and payslipId = "''p1''"
          and s = "Payslips_sample (FNum 30) (FNum 0)" and blob = "''%PDF-1.4''"
          and employeeNo = "''EMP001''" and year = 2025]
    by (simp add: year backend_up_def backend_down_def Payslips_sample_def signed_in_def
        request_defs getItem_def Let_def)
qed

subsection \<open>Numeric fields\<close>









end
